theory Spec2Isabelle
  imports Main "HOL-Library.Sublist"
begin

section \<open>Python strings and paths\<close>

text \<open>
  A Python \<open>str\<close> is modelled as a \<open>string\<close>; one \<open>char\<close> stands for one code point,
  so the model covers the texts whose code points are below 256 (command output is ASCII
  in practice). \<open>isspace\<close> and \<open>islinebreak\<close> list the code points below 256 that
  \<open>str.strip\<close>/\<open>str.split\<close> and \<open>str.splitlines\<close> treat as white space and as line
  boundaries.
\<close>

definition isspace :: "char \<Rightarrow> bool" where
  "isspace c = (c \<in> set [CHR 0x09, CHR 0x0A, CHR 0x0B, CHR 0x0C, CHR 0x0D, CHR 0x1C,
                         CHR 0x1D, CHR 0x1E, CHR 0x1F, CHR 0x20, CHR 0x85, CHR 0xA0])"

definition islinebreak :: "char \<Rightarrow> bool" where
  "islinebreak c = (c \<in> set [CHR 0x0A, CHR 0x0B, CHR 0x0C, CHR 0x0D, CHR 0x1C,
                             CHR 0x1D, CHR 0x1E, CHR 0x85])"

text \<open>\<open>s.strip()\<close>: leading and trailing white space removed.\<close>

definition str_strip :: "string \<Rightarrow> string" where
  "str_strip s = rev (dropWhile isspace (rev (dropWhile isspace s)))"

text \<open>\<open>s.split()\<close> with no separator: the maximal runs of characters that are not
  white space. The first argument is the token being read.\<close>

fun split_from :: "string \<Rightarrow> string \<Rightarrow> string list" where
  "split_from cur [] = (if cur = [] then [] else [cur])"
| "split_from cur (c # cs) =
     (if isspace c then (if cur = [] then split_from [] cs else cur # split_from [] cs)
      else split_from (cur @ [c]) cs)"

definition str_split :: "string \<Rightarrow> string list" where
  "str_split s = split_from [] s"

text \<open>\<open>s.splitlines()\<close>: the lines of \<open>s\<close> without their line boundaries; a carriage
  return followed by a line feed is one boundary, and a boundary at the very end opens no
  further line.\<close>

fun splitlines_from :: "string \<Rightarrow> string \<Rightarrow> string list" where
  "splitlines_from cur [] = (if cur = [] then [] else [cur])"
| "splitlines_from cur (c # cs) =
     (if c = CHR 0x0D then
        (case cs of
           [] \<Rightarrow> cur # splitlines_from [] cs
         | d # ds \<Rightarrow> if d = CHR 0x0A then cur # splitlines_from [] ds
                     else cur # splitlines_from [] cs)
      else if islinebreak c then cur # splitlines_from [] cs
      else splitlines_from (cur @ [c]) cs)"

definition str_splitlines :: "string \<Rightarrow> string list" where
  "str_splitlines s = splitlines_from [] s"

text \<open>\<open>sub in s\<close>: \<open>sub\<close> occurs in \<open>s\<close> as a contiguous substring.\<close>

fun str_in :: "string \<Rightarrow> string \<Rightarrow> bool" where
  "str_in sub [] = (sub = [])"
| "str_in sub (c # cs) = (prefix sub (c # cs) \<or> str_in sub cs)"

text \<open>\<open>sep.join(xs)\<close>.\<close>

fun join :: "string \<Rightarrow> string list \<Rightarrow> string" where
  "join sep [] = []"
| "join sep [x] = x"
| "join sep (x # y # ys) = x @ sep @ join sep (y # ys)"

text \<open>\<open>str(n)\<close> for an integer, as the f-strings render it.\<close>

fun str_nat :: "nat \<Rightarrow> string" where
  "str_nat n = (if n < 10 then [''0123456789'' ! n]
                else str_nat (n div 10) @ [''0123456789'' ! (n mod 10)])"

declare str_nat.simps [simp del]

definition str_int :: "int \<Rightarrow> string" where
  "str_int i = (if i < 0 then CHR ''-'' # str_nat (nat (- i)) else str_nat (nat i))"

text \<open>\<open>x or y\<close> on strings: the empty string is false.\<close>

definition str_or :: "string \<Rightarrow> string \<Rightarrow> string" where
  "str_or x y = (if x \<noteq> [] then x else y)"

text \<open>\<open>os.environ.get(k) or y\<close>: a missing variable and an empty one both give \<open>y\<close>.\<close>

definition env_or :: "string option \<Rightarrow> string \<Rightarrow> string" where
  "env_or x y = (case x of None \<Rightarrow> y | Some v \<Rightarrow> str_or v y)"

text \<open>
  A \<open>pathlib.Path\<close> built from a text that starts with exactly one slash is the list of
  its components: the pieces between slashes, with empty pieces and \<open>.\<close> dropped (\<open>..\<close>
  is kept). Every path of the program is built from such a text.
\<close>

type_synonym path = "string list"

primrec split_on :: "char \<Rightarrow> string \<Rightarrow> string list" where
  "split_on d [] = [] # []"
| "split_on d (c # cs) =
     (if c = d then [] # split_on d cs
      else (case split_on d cs of [] \<Rightarrow> [c] # [] | x # xs \<Rightarrow> (c # x) # xs))"

definition Path :: "string \<Rightarrow> path" where
  "Path s = filter (\<lambda>c. c \<noteq> [] \<and> c \<noteq> ''.'') (split_on CHR ''/'' s)"

text \<open>\<open>p / name\<close> for a single literal component, \<open>p.parent\<close> and \<open>str(p)\<close>.\<close>

definition joinpath :: "path \<Rightarrow> string \<Rightarrow> path" where
  "joinpath p name = p @ [name]"

definition parent :: "path \<Rightarrow> path" where
  "parent p = butlast p"

definition path_str :: "path \<Rightarrow> string" where
  "path_str p = (if p = [] then ''/'' else concat (map (\<lambda>c. CHR ''/'' # c) p))"

section \<open>The environment and what a run does to it\<close>

text \<open>
  The program talks to the operating system only. The model records every such step of a
  run as an event, in order, and takes the answers from a \<open>world\<close>: one answer for
  each place of the source that asks (for a place inside a loop, one for each iteration).
  \<open>subprocess.run\<close> is modelled for a program that can be started: it yields a return
  code and the captured standard output.
\<close>

datatype level = INFO | SUCCESS | WARN | ERROR | SECTION

datatype event =
    Exec "string list" "string option"  \<comment> \<open>\<open>subprocess.run(argv, env=...)\<close>; the second
      argument is the \<open>KUBECONFIG\<close> added to the copied environment, if any\<close>
  | Sleep nat                           \<comment> \<open>\<open>time.sleep(seconds)\<close>\<close>
  | Clock                               \<comment> \<open>\<open>time.time()\<close>\<close>
  | Geteuid                             \<comment> \<open>\<open>os.geteuid()\<close>\<close>
  | Exists string                       \<comment> \<open>\<open>Path.exists()\<close>\<close>
  | Which string                        \<comment> \<open>\<open>shutil.which(name)\<close>\<close>
  | WriteFile string string             \<comment> \<open>\<open>open(path, "w")\<close> and \<open>write\<close>\<close>
  | Chmod string nat                    \<comment> \<open>\<open>os.chmod(path, mode)\<close>\<close>
  | Log level string                    \<comment> \<open>\<open>Log.info\<close>, \<open>Log.success\<close>, \<open>Log.warn\<close>,
      \<open>Log.error\<close>, \<open>Log.section\<close>: the message, before it is stamped and coloured\<close>
  | Print string                        \<comment> \<open>\<open>print(text)\<close>\<close>

record proc =
  returncode :: int
  stdout :: string

datatype exn = CalledProcessError int "string list"

datatype outcome = Normal | SysExit int | Raised exn

text \<open>The status the interpreter ends the process with: 0 after a normal return, the
  argument of \<open>sys.exit\<close>, and 1 after an exception nobody caught.\<close>

fun exit_status :: "outcome \<Rightarrow> int" where
  "exit_status Normal = 0"
| "exit_status (SysExit n) = n"
| "exit_status (Raised e) = 1"

text \<open>How a wait loop was left: by its early \<open>return\<close>/\<open>break\<close>, or by running out.\<close>

datatype poll_outcome = Converged | TimedOut

text \<open>The places of the source that run a command (with the line of the source).\<close>

datatype cmd_site =
    HostnameI        \<comment> \<open>82\<close>
  | MkdirKube        \<comment> \<open>88\<close>
  | ChownKube        \<comment> \<open>89\<close>
  | ChmodKube        \<comment> \<open>90\<close>
  | Hostname         \<comment> \<open>102\<close>
  | GrepHosts        \<comment> \<open>106\<close>
  | AppendHosts      \<comment> \<open>109\<close>
  | K3sActive        \<comment> \<open>115\<close>
  | K3sInstall       \<comment> \<open>119\<close>
  | CpKubeconfig     \<comment> \<open>140\<close>
  | ChownKubeconfig  \<comment> \<open>141\<close>
  | ChmodKubeconfig  \<comment> \<open>142\<close>
  | NodesProbe       \<comment> \<open>148, once for each iteration\<close>
  | ApplyYaml        \<comment> \<open>184\<close>
  | HelmInstall      \<comment> \<open>193\<close>
  | HelmStatus       \<comment> \<open>210\<close>
  | HelmRepoAdd      \<comment> \<open>218\<close>
  | HelmRepoUpdate   \<comment> \<open>219\<close>
  | HelmUpgrade      \<comment> \<open>236\<close>
  | RolloutStatus    \<comment> \<open>242\<close>
  | PodsProbe        \<comment> \<open>251, once for each iteration\<close>
  | VerifyNodes      \<comment> \<open>270\<close>

datatype fs_site =
    KcfgVerify       \<comment> \<open>115\<close>
  | KcfgPoll         \<comment> \<open>123, once for each iteration\<close>
  | KcfgFix          \<comment> \<open>135\<close>
  | ShimTarget       \<comment> \<open>169\<close>
  | Tmpl             \<comment> \<open>182\<close>

datatype which_site =
    WhichKubectl     \<comment> \<open>162\<close>
  | WhichK3s         \<comment> \<open>165\<close>
  | WhichHelm        \<comment> \<open>189\<close>
  | WhichHelmAgain   \<comment> \<open>194\<close>

record world =
  w_euid :: nat                              \<comment> \<open>\<open>os.geteuid()\<close>\<close>
  w_environ :: "string \<Rightarrow> string option"       \<comment> \<open>\<open>os.environ\<close>\<close>
  w_script_dir :: path                       \<comment> \<open>\<open>Path(__file__).resolve().parent\<close>\<close>
  w_proc :: "cmd_site \<Rightarrow> nat \<Rightarrow> proc"         \<comment> \<open>what the command run there returns\<close>
  w_exists :: "fs_site \<Rightarrow> nat \<Rightarrow> bool"        \<comment> \<open>\<open>Path.exists()\<close> there\<close>
  w_which :: "which_site \<Rightarrow> bool"             \<comment> \<open>whether \<open>shutil.which\<close> finds the program\<close>
  w_write_error :: "string option"           \<comment> \<open>the exception of \<open>open\<close>/\<open>write\<close> at 173, if any\<close>
  w_chmod_error :: "string option"           \<comment> \<open>the exception of \<open>os.chmod\<close> at 175, if any\<close>
  w_before_deadline :: "nat \<Rightarrow> bool"          \<comment> \<open>the value of \<open>time.time() < deadline\<close> at
      each evaluation of the loop condition at 250\<close>

text \<open>
  Statements in sequence: the events of a statement follow those of the one before, and
  a statement that exits or raises ends the sequence.
\<close>

fun seq :: "(event list \<times> outcome) list \<Rightarrow> event list \<times> outcome" where
  "seq [] = ([], Normal)"
| "seq (s # ss) =
     (case s of
        (t, Normal) \<Rightarrow> (case seq ss of (t', oc) \<Rightarrow> (t @ t', oc))
      | (t, oc) \<Rightarrow> (t, oc))"

text \<open>The same where a statement may never return (\<open>None\<close>).\<close>

fun seq_opt :: "(event list \<times> outcome) option list \<Rightarrow> (event list \<times> outcome) option" where
  "seq_opt [] = Some ([], Normal)"
| "seq_opt (s # ss) =
     (case s of
        None \<Rightarrow> None
      | Some (t, Normal) \<Rightarrow> (case seq_opt ss of None \<Rightarrow> None | Some (t', oc) \<Rightarrow> Some (t @ t', oc))
      | Some (t, oc) \<Rightarrow> Some (t, oc))"

definition say :: "level \<Rightarrow> string \<Rightarrow> event list \<times> outcome" where
  "say l msg = ([Log l msg], Normal)"

definition emit :: "event list \<Rightarrow> event list \<times> outcome" where
  "emit t = (t, Normal)"

text \<open>
  \<open>run(cmd, check=..., env=...)\<close>: logs the command line, runs it, and raises
  \<open>CalledProcessError\<close> when \<open>check\<close> is set and the return code is not 0. No caller
  passes \<open>cwd\<close>. The last argument is what the command returns.
\<close>

definition run :: "string list \<Rightarrow> bool \<Rightarrow> string option \<Rightarrow> proc \<Rightarrow> event list \<times> outcome" where
  "run cmd check env r =
     ([Log INFO (''$ '' @ join '' '' cmd), Exec cmd env],
      if check \<and> returncode r \<noteq> 0 then Raised (CalledProcessError (returncode r) cmd)
      else Normal)"

definition sys_exit :: "int \<Rightarrow> event list \<times> outcome" where
  "sys_exit n = ([], SysExit n)"

section \<open>The program\<close>

subsection \<open>HostEnv\<close>

record HostEnv =
  user :: string
  user_home :: path
  primary_ip :: string

text \<open>\<open>HostEnv._detect_primary_ip\<close>, from what \<open>hostname -I\<close> returned.\<close>

definition detect_primary_ip :: "proc \<Rightarrow> string" where
  "detect_primary_ip r =
     (let parts = str_split (str_or (stdout r) [])
      in case parts of [] \<Rightarrow> ''127.0.0.1'' | p # ps \<Rightarrow> p)"

text \<open>\<open>HostEnv.__init__\<close>: the object and the events of building it.\<close>

definition HostEnv_init :: "world \<Rightarrow> HostEnv \<times> event list" where
  "HostEnv_init w =
     (let u = env_or (w_environ w ''SUDO_USER'') (env_or (w_environ w ''USER'') ''unknown'')
      in (\<lparr>user = u,
           user_home = (if u \<noteq> ''root'' then Path (''/home/'' @ u) else Path ''/root''),
           primary_ip = detect_primary_ip (w_proc w HostnameI 0)\<rparr>,
          [Exec [''hostname'', ''-I''] None]))"

definition kubeconfig_path :: "HostEnv \<Rightarrow> path" where
  "kubeconfig_path h = joinpath (joinpath (user_home h) ''.kube'') ''config''"

definition kube_env :: "HostEnv \<Rightarrow> string option" where
  "kube_env h = Some (path_str (kubeconfig_path h))"

definition ensure_kube_dir :: "world \<Rightarrow> HostEnv \<Rightarrow> event list \<times> outcome" where
  "ensure_kube_dir w h =
     (let kube_dir = joinpath (user_home h) ''.kube''
      in seq [run [''mkdir'', ''-p'', path_str kube_dir] False None (w_proc w MkdirKube 0),
              run [''chown'', ''-R'', user h @ '':'' @ user h, path_str kube_dir] False None
                (w_proc w ChownKube 0),
              run [''chmod'', ''700'', path_str kube_dir] False None (w_proc w ChmodKube 0)])"

subsection \<open>K3sCluster\<close>

definition ensure_hosts :: "world \<Rightarrow> HostEnv \<Rightarrow> event list \<times> outcome" where
  "ensure_hosts w h =
     (let hostname = str_strip (stdout (w_proc w Hostname 0));
          ip = str_or (primary_ip h) ''127.0.1.1'';
          grep_cmd = [''grep'', ''-Eq'',
                      ''^[0-9A-Fa-f:.]+'' @ [CHR 0x5C] @ ''s+'' @ hostname @ ''('' @ [CHR 0x5C]
                        @ ''s|$)'',
                      ''/etc/hosts'']
      in seq [emit [Exec [''hostname''] None],
              say INFO (''Checking /etc/hosts entry for '' @ hostname @ '' ('' @ ip @ '')''),
              emit [Exec grep_cmd None],
              if returncode (w_proc w GrepHosts 0) \<noteq> 0 then
                (let line = ip @ '' '' @ hostname
                 in seq [say INFO (''Adding: '' @ line),
                         run [''bash'', ''-c'',
                              ''echo '' @ [CHR 0x27] @ line @ [CHR 0x27] @ '' >> /etc/hosts'']
                           False None (w_proc w AppendHosts 0)])
              else say INFO ''Host entry already present.''])"

text \<open>
  The loop at 122 to 128, with \<open>n\<close> iterations left and \<open>k\<close> done: \<open>Converged\<close> is the
  \<open>break\<close>, \<open>TimedOut\<close> the \<open>else\<close> branch of the \<open>for\<close>.
\<close>

fun wait_kubeconfig :: "world \<Rightarrow> string \<Rightarrow> nat \<Rightarrow> nat \<Rightarrow> event list \<times> poll_outcome" where
  "wait_kubeconfig w kcfg k 0 = ([], TimedOut)"
| "wait_kubeconfig w kcfg k (Suc n) =
     (if w_exists w KcfgPoll k then ([Exists kcfg], Converged)
      else (case wait_kubeconfig w kcfg (Suc k) n of
              (t, x) \<Rightarrow> (Exists kcfg # Sleep 2 # t, x)))"

definition fix_kubeconfig_permissions :: "world \<Rightarrow> HostEnv \<Rightarrow> event list \<times> outcome" where
  "fix_kubeconfig_permissions w h =
     (let k3s_cfg = Path ''/etc/rancher/k3s/k3s.yaml''
      in if \<not> w_exists w KcfgFix 0 then
           seq [emit [Exists (path_str k3s_cfg)],
                say ERROR ''kubeconfig not found, skipping copy.'']
         else
           (let dest = kubeconfig_path h
            in seq [emit [Exists (path_str k3s_cfg)],
                    ensure_kube_dir w h,
                    run [''cp'', path_str k3s_cfg, path_str dest] False None
                      (w_proc w CpKubeconfig 0),
                    run [''chown'', ''-R'', user h @ '':'' @ user h, path_str (parent dest)]
                      False None (w_proc w ChownKubeconfig 0),
                    run [''chmod'', ''600'', path_str dest] False None
                      (w_proc w ChmodKubeconfig 0),
                    say INFO (''Kubeconfig copied to '' @ path_str dest)]))"

definition nodes_cmd :: "string list" where
  "nodes_cmd = [''k3s'', ''kubectl'', ''get'', ''nodes'', ''--no-headers'']"

text \<open>\<open>total\<close> and \<open>ready\<close> at 152 to 154, from what the probe returned.\<close>

definition node_counts :: "proc \<Rightarrow> nat \<times> nat" where
  "node_counts result =
     (let lines = str_splitlines (str_strip (stdout result));
          total = length lines;
          ready = length (filter (str_in ''Ready'') lines)
      in (total, ready))"

text \<open>
  The loop at 147 to 158, with \<open>n\<close> iterations left and \<open>k\<close> done: \<open>Converged\<close> is the
  \<open>return\<close> inside the loop, \<open>TimedOut\<close> its end.
\<close>

fun nodes_loop :: "world \<Rightarrow> nat \<Rightarrow> nat \<Rightarrow> event list \<times> poll_outcome" where
  "nodes_loop w k 0 = ([], TimedOut)"
| "nodes_loop w k (Suc n) =
     (case node_counts (w_proc w NodesProbe k) of
        (n_total, n_ready) \<Rightarrow>
          if n_total > 0 \<and> n_ready = n_total then
            ([Exec nodes_cmd None,
              Log SUCCESS
                (''All '' @ str_nat n_ready @ ''/'' @ str_nat n_total @ '' nodes Ready.'')],
             Converged)
          else (case nodes_loop w (Suc k) n of
                  (t, x) \<Rightarrow> (Exec nodes_cmd None # Sleep 2 # t, x)))"

definition wait_nodes_ready :: "world \<Rightarrow> event list \<times> outcome" where
  "wait_nodes_ready w =
     seq [say INFO ''Checking node readiness (2 min timeout)...'',
          (case nodes_loop w 0 60 of
             (t, Converged) \<Rightarrow> emit t
           | (t, TimedOut) \<Rightarrow>
               seq [emit t,
                    say WARN (''Nodes not fully ready after 2 minutes. Continue verifying with ''
                      @ [CHR 0x60] @ ''kubectl get nodes'' @ [CHR 0x60] @ ''.'')])]"

definition k3s_install_cmd :: "string list" where
  "k3s_install_cmd =
     [''bash'', ''-lc'',
      ''curl -sfL https://get.k3s.io | INSTALL_K3S_EXEC='' @ [CHR 0x27]
        @ ''server --disable traefik'' @ [CHR 0x27] @ '' sh -'']"

definition install_or_verify :: "world \<Rightarrow> HostEnv \<Rightarrow> event list \<times> outcome" where
  "install_or_verify w h =
     (let kcfg = Path ''/etc/rancher/k3s/k3s.yaml'';
          active = w_proc w K3sActive 0
      in seq [emit [Exec [''systemctl'', ''is-active'', ''--quiet'', ''k3s''] None],
              emit (if returncode active = 0 then [Exists (path_str kcfg)] else []),
              if returncode active = 0 \<and> w_exists w KcfgVerify 0 then
                say INFO ''k3s server already active.''
              else
                seq [say INFO ''Installing K3s server (traefik disabled)...'',
                     run k3s_install_cmd True None (w_proc w K3sInstall 0)],
              say INFO ''Waiting for K3s kubeconfig...'',
              (case wait_kubeconfig w (path_str kcfg) 0 60 of
                 (t, Converged) \<Rightarrow> emit t
               | (t, TimedOut) \<Rightarrow>
                   seq [emit t,
                        say ERROR ''Timed out waiting for /etc/rancher/k3s/k3s.yaml'',
                        sys_exit 1]),
              fix_kubeconfig_permissions w h,
              wait_nodes_ready w])"

definition shim_contents :: string where
  "shim_contents = ''#!/bin/sh'' @ [CHR 0x0A] @ ''exec k3s kubectl '' @ [CHR 0x22] @ ''$@''
     @ [CHR 0x22, CHR 0x0A]"

definition ensure_kubectl :: "world \<Rightarrow> event list \<times> outcome" where
  "ensure_kubectl w =
     (if w_which w WhichKubectl then
        seq [emit [Which ''kubectl''], say INFO ''kubectl already present in PATH.'']
      else if \<not> w_which w WhichK3s then
        seq [emit [Which ''kubectl'', Which ''k3s''],
             say WARN ''k3s binary not found; cannot create kubectl shim.'']
      else
        (let target_path = Path ''/usr/local/bin/kubectl''
         in if \<not> w_exists w ShimTarget 0 then
              seq [emit [Which ''kubectl'', Which ''k3s'', Exists (path_str target_path)],
                   say INFO (''Creating kubectl shim using '' @ [CHR 0x27] @ ''k3s kubectl''
                     @ [CHR 0x27] @ '' ...''),
                   emit [WriteFile (path_str target_path) shim_contents],
                   (case w_write_error w of
                      Some e \<Rightarrow> say ERROR (''Failed to create kubectl shim: '' @ e)
                    | None \<Rightarrow>
                        seq [emit [Chmod (path_str target_path) 493],
                             (case w_chmod_error w of
                                Some e \<Rightarrow> say ERROR (''Failed to create kubectl shim: '' @ e)
                              | None \<Rightarrow>
                                  say SUCCESS (''kubectl shim created at ''
                                    @ path_str target_path))])]
            else emit [Which ''kubectl'', Which ''k3s'', Exists (path_str target_path)]))"

definition apply_bootstrap_yaml :: "world \<Rightarrow> HostEnv \<Rightarrow> event list \<times> outcome" where
  "apply_bootstrap_yaml w h =
     (let tmpl = joinpath (joinpath (w_script_dir w) ''templates'') ''bootstrap.yaml''
      in if w_exists w Tmpl 0 then
           seq [emit [Exists (path_str tmpl)],
                say INFO (''Applying '' @ path_str tmpl),
                run [''kubectl'', ''apply'', ''-f'', path_str tmpl] False (kube_env h)
                  (w_proc w ApplyYaml 0)]
         else
           seq [emit [Exists (path_str tmpl)],
                say INFO ''No bootstrap.yaml found; skipping.''])"

definition helm_install_cmd :: "string list" where
  "helm_install_cmd =
     [''bash'', ''-lc'',
      ''curl -fsSL https://raw.githubusercontent.com/helm/helm/main/scripts/get-helm-3 | bash'']"

definition ensure_helm :: "world \<Rightarrow> event list \<times> outcome" where
  "ensure_helm w =
     (if w_which w WhichHelm then
        seq [emit [Which ''helm''], say INFO ''helm present.'']
      else
        seq [emit [Which ''helm''],
             say INFO ''Installing helm (get-helm-3)...'',
             run helm_install_cmd True None (w_proc w HelmInstall 0),
             emit [Which ''helm''],
             if \<not> w_which w WhichHelmAgain then
               seq [say ERROR ''helm not found after install attempt.'', sys_exit 2]
             else emit []])"

subsection \<open>RancherDeployment\<close>

definition status_cmd :: "string list" where
  "status_cmd = [''helm'', ''status'', ''rancher'', ''-n'', ''cattle-system'']"

definition repo_add_cmd :: "string list" where
  "repo_add_cmd = [''helm'', ''repo'', ''add'', ''rancher-stable'',
                   ''https://releases.rancher.com/server-charts/stable'']"

definition repo_update_cmd :: "string list" where
  "repo_update_cmd = [''helm'', ''repo'', ''update'']"

text \<open>\<open>helm_cmd\<close> of \<open>RancherDeployment.install\<close> (221 to 235).\<close>

definition helm_cmd :: "HostEnv \<Rightarrow> string list" where
  "helm_cmd h =
     (let ip = primary_ip h;
          external_https = ''https://'' @ ip @ '':30444'';
          hostname = ip @ ''.nip.io''
      in [''helm'', ''--kubeconfig'', path_str (kubeconfig_path h),
          ''upgrade'', ''--install'', ''rancher'', ''rancher-stable/rancher'',
          ''--namespace'', ''cattle-system'',
          ''--create-namespace'',
          ''--set'', ''replicas=1'',
          ''--set'', ''ingress.enabled=false'',
          ''--set'', ''ingress.tls.source=secret'',
          ''--set'', ''hostname='' @ hostname,
          ''--set'', ''service.type=ClusterIP'',
          ''--set'', ''global.cattle.psp.enabled=false'',
          ''--set'', ''bootstrapPassword=admin123'',
          ''--set'', ''extraEnv[0].name=CATTLE_SERVER_URL'',
          ''--set'', ''extraEnv[0].value='' @ external_https])"

definition install :: "world \<Rightarrow> HostEnv \<Rightarrow> event list \<times> outcome" where
  "install w h =
     (let env = kube_env h;
          status_cp = w_proc w HelmStatus 0
      in seq [say INFO
                ''Checking if Rancher helm release already exists (skip install if present)...'',
              emit [Exec status_cmd env],
              if returncode status_cp = 0 then
                say INFO
                  ''Rancher helm release already present; skipping install/upgrade per request.''
              else
                seq [say INFO
                       ''Rancher release not found; proceeding with initial install (no cert-manager)...'',
                     run repo_add_cmd False None (w_proc w HelmRepoAdd 0),
                     run repo_update_cmd False None (w_proc w HelmRepoUpdate 0),
                     run (helm_cmd h) True env (w_proc w HelmUpgrade 0)]])"

definition rollout_cmd :: "int \<Rightarrow> string list" where
  "rollout_cmd timeout_sec =
     [''kubectl'', ''-n'', ''cattle-system'', ''rollout'', ''status'', ''deploy/rancher'',
      ''--timeout='' @ str_int timeout_sec @ ''s'']"

definition pods_cmd :: "string list" where
  "pods_cmd = [''kubectl'', ''-n'', ''cattle-system'', ''get'', ''pods'', ''-l'', ''app=rancher'',
               ''-o'',
               ''jsonpath={range .items[*]}{.status.phase}{'' @ [CHR 0x22, CHR 0x5C] @ ''n''
                 @ [CHR 0x22] @ ''}{end}'']"

text \<open>The list \<open>phases\<close> at 256, from the standard output of the probe.\<close>

definition pod_phases :: "string \<Rightarrow> string list" where
  "pod_phases out =
     map str_strip (filter (\<lambda>p. str_strip p \<noteq> []) (str_splitlines (str_or out [])))"

text \<open>
  The loop at 250 to 260, at its \<open>k\<close>-th evaluation of the condition. The clock is
  outside the program: the model takes the value of \<open>time.time() < deadline\<close> from the
  world, and the loop returns nothing (\<open>None\<close>) when the condition stays true and the pods
  never run.
\<close>

partial_function (option) pods_loop ::
  "world \<Rightarrow> string option \<Rightarrow> nat \<Rightarrow> (event list \<times> poll_outcome) option" where
  "pods_loop w env k =
     (if w_before_deadline w k then
        (let r = w_proc w PodsProbe k;
             phases = pod_phases (stdout r)
         in if phases \<noteq> [] \<and> list_all (\<lambda>p. p = ''Running'') phases then
              Some ([Clock, Exec pods_cmd env, Log SUCCESS ''Rancher pods are Running.''],
                    Converged)
            else
              Option.bind (pods_loop w env (Suc k))
                (\<lambda>(t, x). Some (Clock # Exec pods_cmd env # Sleep 3 # t, x)))
      else Some ([Clock], TimedOut))"

declare pods_loop.simps [code]

text \<open>
  \<open>RancherDeployment.wait_ready\<close>: the \<open>try\<close> at 241 catches the
  \<open>CalledProcessError\<close> of \<open>run\<close>; the \<open>Clock\<close> before the loop is the reading that
  sets \<open>deadline\<close>.
\<close>

definition wait_ready :: "world \<Rightarrow> HostEnv \<Rightarrow> int \<Rightarrow> (event list \<times> outcome) option" where
  "wait_ready w h timeout_sec =
     (let env = kube_env h
      in case run (rollout_cmd timeout_sec) True env (w_proc w RolloutStatus 0) of
           (t, Normal) \<Rightarrow>
             Some (seq [say INFO ''Waiting for Rancher to be ready...'',
                        emit t,
                        say SUCCESS ''Rancher deployment is ready.''])
         | (t, Raised (CalledProcessError rc c)) \<Rightarrow>
             (case pods_loop w env 0 of
                None \<Rightarrow> None
              | Some (t', x) \<Rightarrow>
                  Some (seq [say INFO ''Waiting for Rancher to be ready...'',
                             emit t,
                             say WARN ''rollout status timed out; checking pods directly...'',
                             emit [Clock],
                             emit t',
                             (case x of
                                Converged \<Rightarrow> emit []
                              | TimedOut \<Rightarrow>
                                  say WARN
                                    ''Rancher not ready within timeout; check with: kubectl -n cattle-system get pods'')]))
         | (t, SysExit n) \<Rightarrow>
             Some (seq [say INFO ''Waiting for Rancher to be ready...'', (t, SysExit n)]))"

subsection \<open>ClusterBanner\<close>

definition verify_cluster :: "world \<Rightarrow> HostEnv \<Rightarrow> event list \<times> outcome" where
  "verify_cluster w h =
     (let env = kube_env h;
          result = w_proc w VerifyNodes 0
      in seq [say SECTION ''Cluster Verification'',
              run [''kubectl'', ''get'', ''nodes''] False env result,
              if stdout result \<noteq> [] then emit [Print (stdout result)]
              else emit [Log WARN ''Could not get nodes output'', Print ''None''],
              if stdout result \<noteq> [] \<and> str_in ''Ready'' (stdout result) then
                say SUCCESS ''Cluster appears healthy and responsive.''
              else
                say WARN ''Cluster not fully ready, check systemctl status k3s and logs.''])"

definition access :: "HostEnv \<Rightarrow> event list \<times> outcome" where
  "access h =
     seq [say SECTION ''Rancher Access'',
          say INFO (''HTTPS Endpoint : https://'' @ primary_ip h @ '':30444''),
          say INFO ''Namespace      : cattle-system'',
          say INFO ''NodePort Svc    : rancher-nodeport'']"

definition final :: "HostEnv \<Rightarrow> event list \<times> outcome" where
  "final h =
     seq [say SECTION ''Bootstrap Complete'',
          say INFO (''You can now run: KUBECONFIG='' @ path_str (kubeconfig_path h)
            @ '' kubectl -n cattle-system get pods'')]"

subsection \<open>BootstrapOrchestrator\<close>

definition require_sudo :: "world \<Rightarrow> event list \<times> outcome" where
  "require_sudo w =
     (if w_euid w \<noteq> 0 then
        seq [emit [Geteuid],
             say ERROR ''This script must be run as root (sudo). Exiting.'',
             sys_exit 1]
      else emit [Geteuid])"

definition show_mode :: "HostEnv \<Rightarrow> event list \<times> outcome" where
  "show_mode h =
     seq [say SECTION ''K3s Cluster Bootstrap'',
          say INFO (''Current user : '' @ user h),
          say INFO (''Home dir     : '' @ path_str (user_home h)),
          say INFO (''Host IP      : '' @ primary_ip h)]"

text \<open>\<open>BootstrapOrchestrator.run\<close> (307 to 319).\<close>

definition orchestrator_run :: "world \<Rightarrow> HostEnv \<Rightarrow> (event list \<times> outcome) option" where
  "orchestrator_run w h =
     seq_opt [Some (require_sudo w),
              Some (show_mode h),
              Some (ensure_hosts w h),
              Some (install_or_verify w h),
              Some (ensure_kubectl w),
              Some (apply_bootstrap_yaml w h),
              Some (ensure_helm w),
              Some (install w h),
              wait_ready w h 300,
              Some (verify_cluster w h),
              Some (access h),
              Some (final h)]"

text \<open>\<open>main\<close>: the orchestrator is built (which builds the \<open>HostEnv\<close>), then run.\<close>

definition main :: "world \<Rightarrow> (event list \<times> outcome) option" where
  "main w =
     (case HostEnv_init w of
        (h, t0) \<Rightarrow> seq_opt [Some (emit t0), orchestrator_run w h])"

section \<open>Notions used to state the properties\<close>

text \<open>The test at 155 on the \<open>k\<close>-th answer of the node probe, and the test at 257 on the
  \<open>k\<close>-th answer of the pod probe.\<close>

definition nodes_ok :: "world \<Rightarrow> nat \<Rightarrow> bool" where
  "nodes_ok w k =
     (case node_counts (w_proc w NodesProbe k) of
        (n_total, n_ready) \<Rightarrow> 0 < n_total \<and> n_ready = n_total)"

definition pods_ok :: "world \<Rightarrow> nat \<Rightarrow> bool" where
  "pods_ok w k =
     (let phases = pod_phases (stdout (w_proc w PodsProbe k))
      in phases \<noteq> [] \<and> list_all (\<lambda>p. p = ''Running'') phases)"

text \<open>The commands of the package manager among the events of a run.\<close>

fun is_helm :: "event \<Rightarrow> bool" where
  "is_helm (Exec argv env) = (take 1 argv = [''helm''])"
| "is_helm e = False"

text \<open>
  How far a run gets, read off the world: the test at 115, the two ways to reach the wait
  for the credential file at 122, that wait finding the file within its 60 looks, the
  package manager being there at 189 or after its installation at 194, and so on down
  \<open>BootstrapOrchestrator.run\<close>.
\<close>

definition k3s_active :: "world \<Rightarrow> bool" where
  "k3s_active w = (returncode (w_proc w K3sActive 0) = 0 \<and> w_exists w KcfgVerify 0)"

definition reaches_kubeconfig_wait :: "world \<Rightarrow> bool" where
  "reaches_kubeconfig_wait w =
     (w_euid w = 0 \<and> (k3s_active w \<or> returncode (w_proc w K3sInstall 0) = 0))"

definition kubeconfig_appears :: "world \<Rightarrow> bool" where
  "kubeconfig_appears w = (\<exists>k<60. w_exists w KcfgPoll k)"

definition reaches_ensure_helm :: "world \<Rightarrow> bool" where
  "reaches_ensure_helm w = (reaches_kubeconfig_wait w \<and> kubeconfig_appears w)"

definition helm_available :: "world \<Rightarrow> bool" where
  "helm_available w =
     (w_which w WhichHelm
      \<or> (returncode (w_proc w HelmInstall 0) = 0 \<and> w_which w WhichHelmAgain))"

definition reaches_install :: "world \<Rightarrow> bool" where
  "reaches_install w = (reaches_ensure_helm w \<and> helm_available w)"

definition release_present :: "world \<Rightarrow> bool" where
  "release_present w = (returncode (w_proc w HelmStatus 0) = 0)"

definition reaches_wait_ready :: "world \<Rightarrow> bool" where
  "reaches_wait_ready w =
     (reaches_install w \<and> (release_present w \<or> returncode (w_proc w HelmUpgrade 0) = 0))"

text \<open>The object that \<open>main\<close> builds in the world \<open>w\<close>.\<close>

definition host :: "world \<Rightarrow> HostEnv" where
  "host w = fst (HostEnv_init w)"

section \<open>Example worlds\<close>

definition answer :: "int \<Rightarrow> string \<Rightarrow> proc" where
  "answer rc out = \<lparr>returncode = rc, stdout = out\<rparr>"

text \<open>A host on which everything is in place already: a second run.\<close>

definition converged_world :: world where
  "converged_world =
     \<lparr>w_euid = 0,
      w_environ = (\<lambda>k. if k = ''SUDO_USER'' then Some ''ops'' else None),
      w_script_dir = [''opt'', ''hub'', ''bootstrap''],
      w_proc = (\<lambda>s k.
        if s = HostnameI then answer 0 (''192.168.1.10 '' @ [CHR 0x0A])
        else if s = Hostname then answer 0 (''hub1'' @ [CHR 0x0A])
        else if s = NodesProbe then
          answer 0 (''n1 Ready'' @ [CHR 0x0A] @ ''n2 Ready'' @ [CHR 0x0A] @ ''n3 Ready''
            @ [CHR 0x0A])
        else if s = PodsProbe then answer 0 (''Running'' @ [CHR 0x0A] @ ''Running'' @ [CHR 0x0A])
        else if s = VerifyNodes then answer 0 (''n1 Ready'' @ [CHR 0x0A])
        else answer 0 []),
      w_exists = (\<lambda>s k. True),
      w_which = (\<lambda>s. True),
      w_write_error = None,
      w_chmod_error = None,
      w_before_deadline = (\<lambda>k. k < 100)\<rparr>"

text \<open>A world in which every command fails and prints \<open>out\<close>, nothing exists and no
  program is found; the clock passes the deadline at the \<open>m\<close>-th look.\<close>

definition failing_world :: "string \<Rightarrow> nat \<Rightarrow> world" where
  "failing_world out m =
     \<lparr>w_euid = 0,
      w_environ = (\<lambda>k. None),
      w_script_dir = [],
      w_proc = (\<lambda>s k. answer 1 out),
      w_exists = (\<lambda>s k. False),
      w_which = (\<lambda>s. False),
      w_write_error = None,
      w_chmod_error = None,
      w_before_deadline = (\<lambda>k. k < m)\<rparr>"

text \<open>The same host before the release is installed: the release query fails.\<close>

definition fresh_release_world :: world where
  "fresh_release_world =
     converged_world\<lparr>w_proc := (\<lambda>s k. if s = HelmStatus then answer 1 []
                                      else w_proc converged_world s k)\<rparr>"


section \<open>Splitting at white space\<close>

lemma split_from_token:
  "split_from cur s =
     (if cur @ takeWhile (\<lambda>c. \<not> isspace c) s = []
      then split_from [] (dropWhile (\<lambda>c. \<not> isspace c) s)
      else (cur @ takeWhile (\<lambda>c. \<not> isspace c) s)
             # split_from [] (dropWhile (\<lambda>c. \<not> isspace c) s))"
  by (induction s arbitrary: cur) auto

lemma split_from_skip: "split_from [] s = split_from [] (dropWhile isspace s)"
  by (induction s) auto

lemma str_split_first:
  assumes "dropWhile isspace s = s'"
  shows "str_split s =
     (if s' = [] then []
      else takeWhile (\<lambda>c. \<not> isspace c) s' # str_split (dropWhile (\<lambda>c. \<not> isspace c) s'))"
proof -
  have eq: "str_split s = split_from [] s'"
    unfolding str_split_def using split_from_skip [of s] assms by simp
  show ?thesis
  proof (cases s')
    case Nil
    with eq show ?thesis by simp
  next
    case (Cons c cs)
    have "\<not> isspace (hd (dropWhile isspace s))"
      by (rule hd_dropWhile) (simp add: assms Cons)
    then have "\<not> isspace c" by (simp add: assms Cons)
    with Cons eq split_from_token [of "[c]" cs] show ?thesis
      by (simp add: str_split_def)
  qed
qed

section \<open>Primary address detection\<close>

text \<open>
  C10, as the code has it. \<open>HostEnv._detect_primary_ip\<close> returns the first
  white-space-separated token of the standard output of \<open>hostname -I\<close> whenever that
  output holds a character that is not white space: the longest run of such characters
  after the leading white space. It returns the loopback address \<open>127.0.0.1\<close> when the
  output is empty or is white space only. The return code of the probe is not consulted.
\<close>

theorem detect_primary_ip_first_token:
  "detect_primary_ip r =
     (if dropWhile isspace (stdout r) = [] then ''127.0.0.1''
      else takeWhile (\<lambda>c. \<not> isspace c) (dropWhile isspace (stdout r)))"
proof -
  have a: "str_or (stdout r) [] = stdout r" by (simp add: str_or_def)
  show ?thesis
  proof (cases "dropWhile isspace (stdout r) = []")
    case True
    then have "str_split (stdout r) = []"
      using str_split_first [OF refl, of "stdout r"] by simp
    with True show ?thesis
      unfolding detect_primary_ip_def Let_def a by simp
  next
    case False
    then have "str_split (stdout r) =
        takeWhile (\<lambda>c. \<not> isspace c) (dropWhile isspace (stdout r))
        # str_split (dropWhile (\<lambda>c. \<not> isspace c) (dropWhile isspace (stdout r)))"
      using str_split_first [OF refl, of "stdout r"] by simp
    with False show ?thesis
      unfolding detect_primary_ip_def Let_def a by auto
  qed
qed

theorem detect_primary_ip_first_token_witness:
  "detect_primary_ip \<lparr>returncode = 1, stdout = ''  10.0.0.5 fe80::1 '' @ [CHR 0x0A]\<rparr>
     = ''10.0.0.5''"
  using detect_primary_ip_first_token
    [of "\<lparr>returncode = 1, stdout = ''  10.0.0.5 fe80::1 '' @ [CHR 0x0A]\<rparr>"]
  by (simp add: isspace_def)

text \<open>
  C10 as stated fails on an output that is not empty but holds no token: a lone newline
  gives the loopback address, and there is no first token to return. It also fails for a
  probe that exits with an error and still prints an address: the address is returned,
  not the loopback address.
\<close>

theorem detect_primary_ip_blank_output:
  "stdout \<lparr>returncode = 0, stdout = [CHR 0x0A]\<rparr> \<noteq> []
   \<and> str_split (stdout \<lparr>returncode = 0, stdout = [CHR 0x0A]\<rparr>) = []
   \<and> detect_primary_ip \<lparr>returncode = 0, stdout = [CHR 0x0A]\<rparr> = ''127.0.0.1''
   \<and> detect_primary_ip \<lparr>returncode = 1, stdout = ''10.0.0.5'' @ [CHR 0x0A]\<rparr> = ''10.0.0.5''"
  by (simp add: detect_primary_ip_def str_split_def str_or_def isspace_def)

section \<open>The bounded waits\<close>

lemma nodes_loop_converged_iff:
  "snd (nodes_loop w k n) = Converged \<longleftrightarrow> (\<exists>j<n. nodes_ok w (k + j))"
proof (induction n arbitrary: k)
  case 0
  then show ?case by simp
next
  case (Suc n)
  show ?case
  proof (cases "nodes_ok w k")
    case True
    then have "snd (nodes_loop w k (Suc n)) = Converged"
      by (auto simp: nodes_ok_def split: prod.splits)
    moreover from True have "\<exists>j<Suc n. nodes_ok w (k + j)"
      by (intro exI [of _ 0]) simp
    ultimately show ?thesis by simp
  next
    case False
    then have "snd (nodes_loop w k (Suc n)) = snd (nodes_loop w (Suc k) n)"
      by (auto simp: nodes_ok_def split: prod.splits)
    also have "\<dots> = Converged \<longleftrightarrow> (\<exists>j<n. nodes_ok w (Suc k + j))"
      by (rule Suc.IH)
    also have "\<dots> \<longleftrightarrow> (\<exists>j<Suc n. nodes_ok w (k + j))"
    proof
      assume "\<exists>j<n. nodes_ok w (Suc k + j)"
      then obtain j where "j < n" "nodes_ok w (Suc k + j)" by blast
      then show "\<exists>j<Suc n. nodes_ok w (k + j)"
        by (intro exI [of _ "Suc j"]) simp
    next
      assume "\<exists>j<Suc n. nodes_ok w (k + j)"
      then obtain j where j: "j < Suc n" "nodes_ok w (k + j)" by blast
      with False obtain i where "j = Suc i" by (cases j) auto
      with j show "\<exists>j<n. nodes_ok w (Suc k + j)"
        by (intro exI [of _ i]) simp
    qed
    finally show ?thesis .
  qed
qed

lemma nodes_loop_timeout:
  "(\<forall>j<n. \<not> nodes_ok w (k + j)) \<Longrightarrow>
   nodes_loop w k n = (concat (replicate n [Exec nodes_cmd None, Sleep 2]), TimedOut)"
proof (induction n arbitrary: k)
  case 0
  then show ?case by simp
next
  case (Suc n)
  from Suc.prems have "\<not> nodes_ok w k" by (metis add.right_neutral zero_less_Suc)
  moreover have "\<forall>j<n. \<not> nodes_ok w (Suc k + j)"
    using Suc.prems by (metis Suc_less_eq add_Suc_shift)
  then have "nodes_loop w (Suc k) n = (concat (replicate n [Exec nodes_cmd None, Sleep 2]), TimedOut)"
    by (rule Suc.IH)
  ultimately show ?case
    by (auto simp: nodes_ok_def split: prod.splits)
qed

lemma nodes_loop_first:
  "nodes_ok w k \<Longrightarrow>
   nodes_loop w k (Suc n) =
     ([Exec nodes_cmd None,
       Log SUCCESS (''All '' @ str_nat (snd (node_counts (w_proc w NodesProbe k))) @ ''/''
          @ str_nat (fst (node_counts (w_proc w NodesProbe k))) @ '' nodes Ready.'')], Converged)"
  by (auto simp: nodes_ok_def split: prod.splits)


lemma wait_kubeconfig_converged_iff:
  "snd (wait_kubeconfig w p k n) = Converged \<longleftrightarrow> (\<exists>j<n. w_exists w KcfgPoll (k + j))"
proof (induction n arbitrary: k)
  case 0
  then show ?case by simp
next
  case (Suc n)
  show ?case
  proof (cases "w_exists w KcfgPoll k")
    case True
    then have "\<exists>j<Suc n. w_exists w KcfgPoll (k + j)"
      by (intro exI [of _ 0]) simp
    with True show ?thesis by simp
  next
    case False
    then have "snd (wait_kubeconfig w p k (Suc n)) = snd (wait_kubeconfig w p (Suc k) n)"
      by (simp split: prod.splits)
    also have "\<dots> = Converged \<longleftrightarrow> (\<exists>j<n. w_exists w KcfgPoll (Suc k + j))"
      by (rule Suc.IH)
    also have "\<dots> \<longleftrightarrow> (\<exists>j<Suc n. w_exists w KcfgPoll (k + j))"
    proof
      assume "\<exists>j<n. w_exists w KcfgPoll (Suc k + j)"
      then obtain j where "j < n" "w_exists w KcfgPoll (Suc k + j)" by blast
      then show "\<exists>j<Suc n. w_exists w KcfgPoll (k + j)"
        by (intro exI [of _ "Suc j"]) simp
    next
      assume "\<exists>j<Suc n. w_exists w KcfgPoll (k + j)"
      then obtain j where j: "j < Suc n" "w_exists w KcfgPoll (k + j)" by blast
      with False obtain i where "j = Suc i" by (cases j) auto
      with j show "\<exists>j<n. w_exists w KcfgPoll (Suc k + j)"
        by (intro exI [of _ i]) simp
    qed
    finally show ?thesis .
  qed
qed

section \<open>The deadline wait\<close>

lemma pods_loop_deadline:
  "\<not> w_before_deadline w k \<Longrightarrow> pods_loop w env k = Some ([Clock], TimedOut)"
  by (subst pods_loop.simps) simp

lemma pods_loop_running:
  "w_before_deadline w k \<Longrightarrow> pods_ok w k \<Longrightarrow>
   pods_loop w env k =
     Some ([Clock, Exec pods_cmd env, Log SUCCESS ''Rancher pods are Running.''], Converged)"
  by (subst pods_loop.simps) (simp add: pods_ok_def Let_def)

lemma pods_loop_again:
  "w_before_deadline w k \<Longrightarrow> \<not> pods_ok w k \<Longrightarrow>
   pods_loop w env k =
     Option.bind (pods_loop w env (Suc k))
       (\<lambda>(t, x). Some (Clock # Exec pods_cmd env # Sleep 3 # t, x))"
  by (subst pods_loop.simps) (auto simp: pods_ok_def Let_def)


lemma pods_loop_converges:
  "(\<forall>j<m. w_before_deadline w (k + j) \<and> \<not> pods_ok w (k + j)) \<Longrightarrow>
   w_before_deadline w (k + m) \<Longrightarrow> pods_ok w (k + m) \<Longrightarrow>
   pods_loop w env k =
     Some (concat (replicate m [Clock, Exec pods_cmd env, Sleep 3])
             @ [Clock, Exec pods_cmd env, Log SUCCESS ''Rancher pods are Running.''],
           Converged)"
proof (induction m arbitrary: k)
  case 0
  then show ?case by (simp add: pods_loop_running)
next
  case (Suc m)
  from Suc.prems(1) have here: "w_before_deadline w k" "\<not> pods_ok w k"
    by (metis add.right_neutral zero_less_Suc)+
  have "\<forall>j<m. w_before_deadline w (Suc k + j) \<and> \<not> pods_ok w (Suc k + j)"
    using Suc.prems(1) by (metis Suc_less_eq add_Suc_shift)
  moreover have "w_before_deadline w (Suc k + m)" "pods_ok w (Suc k + m)"
    using Suc.prems(2,3) by simp_all
  ultimately have "pods_loop w env (Suc k) =
      Some (concat (replicate m [Clock, Exec pods_cmd env, Sleep 3])
             @ [Clock, Exec pods_cmd env, Log SUCCESS ''Rancher pods are Running.''],
           Converged)"
    by (rule Suc.IH)
  with here show ?case
    by (simp add: pods_loop_again)
qed


lemma pods_loop_Converged_D:
  assumes "pods_loop w env k = Some r"
  shows "snd r = Converged \<longrightarrow> (\<exists>m. (\<forall>j\<le>m. w_before_deadline w (k + j)) \<and> pods_ok w (k + m))"
proof (rule pods_loop.raw_induct
    [where P = "\<lambda>w env k r. snd r = Converged \<longrightarrow>
                  (\<exists>m. (\<forall>j\<le>m. w_before_deadline w (k + j)) \<and> pods_ok w (k + m))",
     OF _ assms], goal_cases)
  case (1 pl w env k r)
  show ?case
  proof (cases "w_before_deadline w k")
    case False
    with 1(2) show ?thesis by auto
  next
    case before: True
    show ?thesis
    proof (cases "pods_ok w k")
      case True
      with before show ?thesis by (intro impI exI [of _ 0]) simp
    next
      case False
      show ?thesis
      proof
        assume conv: "snd r = Converged"
        from False before 1(2) obtain r' where r': "pl w env (Suc k) = Some r'" "snd r' = snd r"
          by (auto simp: pods_ok_def Let_def split: bind_splits)
        with conv 1(1) obtain m where m: "\<forall>j\<le>m. w_before_deadline w (Suc k + j)" "pods_ok w (Suc k + m)"
          by metis
        have "\<forall>j\<le>Suc m. w_before_deadline w (k + j)"
        proof (intro allI impI)
          fix j assume "j \<le> Suc m"
          show "w_before_deadline w (k + j)"
          proof (cases j)
            case 0
            with before show ?thesis by simp
          next
            case (Suc i)
            with \<open>j \<le> Suc m\<close> m(1) show ?thesis by simp
          qed
        qed
        with m(2) show "\<exists>m. (\<forall>j\<le>m. w_before_deadline w (k + j)) \<and> pods_ok w (k + m)"
          by (intro exI [of _ "Suc m"]) simp
      qed
    qed
  qed
qed

lemma pods_loop_Converged_I:
  assumes "\<forall>j\<le>m. w_before_deadline w (k + j)" "pods_ok w (k + m)"
  shows "\<exists>t. pods_loop w env k = Some (t, Converged)"
  using assms
proof (induction m arbitrary: k)
  case 0
  then show ?case by (simp add: pods_loop_running)
next
  case (Suc m)
  have before: "w_before_deadline w k"
    using Suc.prems(1) by (metis add.right_neutral le0)
  show ?case
  proof (cases "pods_ok w k")
    case True
    with before show ?thesis by (simp add: pods_loop_running)
  next
    case False
    have "\<forall>j\<le>m. w_before_deadline w (Suc k + j)"
      using Suc.prems(1) by (metis Suc_le_mono add_Suc_shift)
    moreover have "pods_ok w (Suc k + m)" using Suc.prems(2) by simp
    ultimately obtain t where "pods_loop w env (Suc k) = Some (t, Converged)"
      using Suc.IH by blast
    with before False show ?thesis by (simp add: pods_loop_again)
  qed
qed

section \<open>Substrings\<close>

lemma str_in_sublist: "str_in sub s \<longleftrightarrow> sublist sub s"
  by (induction s) (auto simp: sublist_Cons_right)

lemma str_in_iff: "str_in sub s \<longleftrightarrow> (\<exists>ps ss. s = ps @ sub @ ss)"
  by (simp add: str_in_sublist sublist_def)

section \<open>Node readiness\<close>

lemma nodes_loop_three:
  assumes "node_counts (w_proc w NodesProbe 0) = (3, 3)" "0 < n"
  shows "nodes_loop w 0 n =
      ([Exec nodes_cmd None, Log SUCCESS ''All 3/3 nodes Ready.''], Converged)"
proof -
  from assms(2) obtain n' where n: "n = Suc n'" by (cases n) auto
  from assms(1) have "nodes_ok w 0" by (simp add: nodes_ok_def)
  then show ?thesis
    unfolding n using assms(1) by (simp add: nodes_loop_first str_nat.simps del: nodes_loop.simps)
qed

text \<open>
  C2. Whatever the node probe answers, the node-readiness wait (with \<open>n\<close> attempts; the
  program uses 60) leaves its loop by the early return exactly when one of the answers it
  observes has \<open>total > 0\<close> and \<open>ready = total\<close>. A probe that always reports no lines
  (total 0, ready 0) never makes it converge, whatever \<open>n\<close> is. A probe that reports three
  lines, all ready, at the first attempt makes it converge at once: the probe runs once
  and nothing sleeps.
\<close>

theorem nodes_wait_converges_iff:
  "(snd (nodes_loop w 0 n) = Converged \<longleftrightarrow>
      (\<exists>k<n. case node_counts (w_proc w NodesProbe k) of
                (n_total, n_ready) \<Rightarrow> 0 < n_total \<and> n_ready = n_total))
   \<and> ((\<forall>k. node_counts (w_proc w NodesProbe k) = (0, 0)) \<longrightarrow>
        snd (nodes_loop w 0 n) = TimedOut)
   \<and> (node_counts (w_proc w NodesProbe 0) = (3, 3) \<and> 0 < n \<longrightarrow>
        nodes_loop w 0 n =
          ([Exec nodes_cmd None, Log SUCCESS ''All 3/3 nodes Ready.''], Converged))
   \<and> (node_counts (w_proc w NodesProbe 0) = (3, 3) \<longrightarrow>
        wait_nodes_ready w =
          ([Log INFO ''Checking node readiness (2 min timeout)...'',
            Exec nodes_cmd None, Log SUCCESS ''All 3/3 nodes Ready.''], Normal))"
proof (intro conjI impI)
  show "snd (nodes_loop w 0 n) = Converged \<longleftrightarrow>
      (\<exists>k<n. case node_counts (w_proc w NodesProbe k) of
                (n_total, n_ready) \<Rightarrow> 0 < n_total \<and> n_ready = n_total)"
    using nodes_loop_converged_iff [of w 0 n] by (simp add: nodes_ok_def)
next
  assume "\<forall>k. node_counts (w_proc w NodesProbe k) = (0, 0)"
  then have "\<forall>j<n. \<not> nodes_ok w (0 + j)" by (simp add: nodes_ok_def)
  then show "snd (nodes_loop w 0 n) = TimedOut"
    by (simp add: nodes_loop_timeout)
next
  assume a: "node_counts (w_proc w NodesProbe 0) = (3, 3) \<and> 0 < n"
  then show "nodes_loop w 0 n =
      ([Exec nodes_cmd None, Log SUCCESS ''All 3/3 nodes Ready.''], Converged)"
    by (simp add: nodes_loop_three)
next
  assume a: "node_counts (w_proc w NodesProbe 0) = (3, 3)"
  then have "nodes_loop w 0 60 =
      ([Exec nodes_cmd None, Log SUCCESS ''All 3/3 nodes Ready.''], Converged)"
    by (simp add: nodes_loop_three)
  then show "wait_nodes_ready w =
          ([Log INFO ''Checking node readiness (2 min timeout)...'',
            Exec nodes_cmd None, Log SUCCESS ''All 3/3 nodes Ready.''], Normal)"
    by (simp add: wait_nodes_ready_def say_def emit_def)
qed

lemma converged_nodes: "node_counts (w_proc converged_world NodesProbe k) = (3, 3)"
  by (simp add: converged_world_def answer_def node_counts_def str_strip_def
      str_splitlines_def isspace_def islinebreak_def)

lemma failing_nodes: "node_counts (w_proc (failing_world [] m) NodesProbe k) = (0, 0)"
  by (simp add: failing_world_def answer_def node_counts_def str_strip_def
      str_splitlines_def)

theorem nodes_wait_converges_iff_witness:
  "node_counts (w_proc converged_world NodesProbe 0) = (3, 3) \<and> (0::nat) < 60
   \<and> (\<forall>k. node_counts (w_proc (failing_world [] 0) NodesProbe k) = (0, 0))
   \<and> nodes_loop converged_world 0 60 =
       ([Exec nodes_cmd None, Log SUCCESS ''All 3/3 nodes Ready.''], Converged)
   \<and> snd (nodes_loop (failing_world [] 0) 0 60) = TimedOut"
  using nodes_wait_converges_iff [of converged_world 60]
    nodes_wait_converges_iff [of "failing_world [] 0" 60]
  by (simp only: converged_nodes failing_nodes) simp

lemma str_in_eq_sublist: "str_in sub = sublist sub"
  by (rule ext) (rule str_in_sublist)

text \<open>
  C9. The node-readiness wait counts a line as ready whenever \<open>Ready\<close> occurs anywhere in
  it. \<open>NotReady\<close> contains \<open>Ready\<close>, so a line that reports \<open>NotReady\<close> is counted as
  ready, and the wait converges on any answer that has at least one line and whose lines
  all contain \<open>Ready\<close> (or all contain \<open>NotReady\<close>).
\<close>

theorem nodes_wait_counts_substring:
  "snd (node_counts r) =
     length (filter (sublist ''Ready'') (str_splitlines (str_strip (stdout r))))
   \<and> (str_in ''NotReady'' l \<longrightarrow> str_in ''Ready'' l)
   \<and> (k < n \<and> str_splitlines (str_strip (stdout (w_proc w NodesProbe k))) \<noteq> []
        \<and> (\<forall>l \<in> set (str_splitlines (str_strip (stdout (w_proc w NodesProbe k)))).
              str_in ''Ready'' l)
      \<longrightarrow> snd (nodes_loop w 0 n) = Converged)"
proof (intro conjI impI)
  show "snd (node_counts r) =
     length (filter (sublist ''Ready'') (str_splitlines (str_strip (stdout r))))"
    by (simp add: node_counts_def Let_def str_in_eq_sublist)
next
  assume "str_in ''NotReady'' l"
  then obtain ps ss where "l = ps @ ''NotReady'' @ ss" by (auto simp: str_in_iff)
  then have "l = (ps @ ''Not'') @ ''Ready'' @ ss" by simp
  then show "str_in ''Ready'' l" unfolding str_in_iff by blast
next
  assume a: "k < n \<and> str_splitlines (str_strip (stdout (w_proc w NodesProbe k))) \<noteq> []
        \<and> (\<forall>l \<in> set (str_splitlines (str_strip (stdout (w_proc w NodesProbe k)))).
              str_in ''Ready'' l)"
  then have "nodes_ok w (0 + k)"
    by (simp add: nodes_ok_def node_counts_def Let_def filter_id_conv)
  with a show "snd (nodes_loop w 0 n) = Converged"
    unfolding nodes_loop_converged_iff by blast
qed

theorem nodes_wait_counts_substring_witness:
  "snd (node_counts (answer 0 (''n1   NotReady   control-plane   5m   v1.28.2+k3s1'' @ [CHR 0x0A]))) = 1
   \<and> str_in ''NotReady'' ''n1   NotReady   control-plane''
   \<and> str_in ''Ready'' ''n1   NotReady   control-plane''
   \<and> snd (nodes_loop (failing_world (''n1   NotReady   control-plane   5m   v1.28.2+k3s1'' @ [CHR 0x0A]) 0) 0 60)
       = Converged"
proof -
  let ?out = "''n1   NotReady   control-plane   5m   v1.28.2+k3s1'' @ [CHR 0x0A]"
  have lines: "str_splitlines (str_strip ?out) = [''n1   NotReady   control-plane   5m   v1.28.2+k3s1'']"
    by (simp add: str_strip_def str_splitlines_def isspace_def islinebreak_def)
  have nr: "str_in ''NotReady'' ''n1   NotReady   control-plane''" by simp
  have budget: "(0::nat) < 60" by simp
  have out: "stdout (w_proc (failing_world ?out 0) NodesProbe 0) = ?out"
    by (simp add: failing_world_def answer_def)
  have "str_in ''Ready'' ''n1   NotReady   control-plane   5m   v1.28.2+k3s1''" by simp
  then have all: "\<forall>l \<in> set (str_splitlines (str_strip (stdout (w_proc (failing_world ?out 0) NodesProbe 0)))).
              str_in ''Ready'' l"
    unfolding out lines by simp
  have ne: "str_splitlines (str_strip (stdout (w_proc (failing_world ?out 0) NodesProbe 0))) \<noteq> []"
    unfolding out lines by simp
  have "snd (node_counts (answer 0 ?out)) = 1"
    using nodes_wait_counts_substring [of "answer 0 ?out"]
    by (simp add: answer_def str_strip_def str_splitlines_def isspace_def islinebreak_def
        str_in_sublist [symmetric])
  moreover have "str_in ''Ready'' ''n1   NotReady   control-plane''"
    using nodes_wait_counts_substring [of _ "''n1   NotReady   control-plane''"] nr by blast
  moreover have "snd (nodes_loop (failing_world ?out 0) 0 60) = Converged"
    using nodes_wait_counts_substring [of _ _ 0 60 "failing_world ?out 0"] all ne budget
    by blast
  ultimately show ?thesis using nr by blast
qed

section \<open>Pod phases\<close>

lemma pods_ok_iff:
  "pods_ok w k \<longleftrightarrow>
     pod_phases (stdout (w_proc w PodsProbe k)) \<noteq> []
     \<and> (\<forall>p \<in> set (pod_phases (stdout (w_proc w PodsProbe k))). p = ''Running'')"
  by (simp add: pods_ok_def Let_def list_all_iff)

text \<open>
  C4. The pod-phase wait leaves its loop by the early return exactly when, at some look
  before the deadline, the list of phases it observes is not empty and every entry is
  \<open>Running\<close>. At a look before the deadline, the list \<open>Running, Running\<close> makes it
  return at once; the list \<open>Running, Pending\<close> and the empty list do not: the loop sleeps
  and looks again.
\<close>

theorem pods_wait_converges_iff:
  "((\<exists>t. pods_loop w env 0 = Some (t, Converged)) \<longleftrightarrow>
      (\<exists>k. (\<forall>j\<le>k. w_before_deadline w j)
           \<and> pod_phases (stdout (w_proc w PodsProbe k)) \<noteq> []
           \<and> (\<forall>p \<in> set (pod_phases (stdout (w_proc w PodsProbe k))). p = ''Running'')))
   \<and> (w_before_deadline w k
        \<and> pod_phases (stdout (w_proc w PodsProbe k)) = [''Running'', ''Running'']
      \<longrightarrow> pods_loop w env k =
            Some ([Clock, Exec pods_cmd env, Log SUCCESS ''Rancher pods are Running.''],
                  Converged))
   \<and> (w_before_deadline w k
        \<and> (pod_phases (stdout (w_proc w PodsProbe k)) = [''Running'', ''Pending'']
           \<or> pod_phases (stdout (w_proc w PodsProbe k)) = [])
      \<longrightarrow> pods_loop w env k =
            Option.bind (pods_loop w env (Suc k))
              (\<lambda>(t, x). Some (Clock # Exec pods_cmd env # Sleep 3 # t, x)))"
proof (intro conjI impI)
  show "(\<exists>t. pods_loop w env 0 = Some (t, Converged)) \<longleftrightarrow>
      (\<exists>k. (\<forall>j\<le>k. w_before_deadline w j)
           \<and> pod_phases (stdout (w_proc w PodsProbe k)) \<noteq> []
           \<and> (\<forall>p \<in> set (pod_phases (stdout (w_proc w PodsProbe k))). p = ''Running''))"
  proof
    assume "\<exists>t. pods_loop w env 0 = Some (t, Converged)"
    then obtain t where "pods_loop w env 0 = Some (t, Converged)" ..
    from pods_loop_Converged_D [OF this]
    obtain m where "\<forall>j\<le>m. w_before_deadline w (0 + j)" "pods_ok w (0 + m)" by auto
    then show "\<exists>k. (\<forall>j\<le>k. w_before_deadline w j)
           \<and> pod_phases (stdout (w_proc w PodsProbe k)) \<noteq> []
           \<and> (\<forall>p \<in> set (pod_phases (stdout (w_proc w PodsProbe k))). p = ''Running'')"
      by (intro exI [of _ m]) (simp add: pods_ok_iff)
  next
    assume "\<exists>k. (\<forall>j\<le>k. w_before_deadline w j)
           \<and> pod_phases (stdout (w_proc w PodsProbe k)) \<noteq> []
           \<and> (\<forall>p \<in> set (pod_phases (stdout (w_proc w PodsProbe k))). p = ''Running'')"
    then obtain k where "\<forall>j\<le>k. w_before_deadline w (0 + j)" "pods_ok w (0 + k)"
      by (auto simp: pods_ok_iff)
    then show "\<exists>t. pods_loop w env 0 = Some (t, Converged)"
      by (rule pods_loop_Converged_I)
  qed
next
  assume "w_before_deadline w k
        \<and> pod_phases (stdout (w_proc w PodsProbe k)) = [''Running'', ''Running'']"
  then have "w_before_deadline w k" "pods_ok w k" by (simp_all add: pods_ok_iff)
  then show "pods_loop w env k =
            Some ([Clock, Exec pods_cmd env, Log SUCCESS ''Rancher pods are Running.''],
                  Converged)"
    by (rule pods_loop_running)
next
  assume "w_before_deadline w k
        \<and> (pod_phases (stdout (w_proc w PodsProbe k)) = [''Running'', ''Pending'']
           \<or> pod_phases (stdout (w_proc w PodsProbe k)) = [])"
  then have "w_before_deadline w k" "\<not> pods_ok w k" by (auto simp: pods_ok_iff)
  then show "pods_loop w env k =
            Option.bind (pods_loop w env (Suc k))
              (\<lambda>(t, x). Some (Clock # Exec pods_cmd env # Sleep 3 # t, x))"
    by (rule pods_loop_again)
qed

lemma phases_running: "pod_phases (''Running'' @ [CHR 0x0A] @ ''Running'' @ [CHR 0x0A]) = [''Running'', ''Running'']"
  by (simp add: pod_phases_def str_or_def str_splitlines_def str_strip_def isspace_def islinebreak_def)

lemma phases_pending: "pod_phases (''Running'' @ [CHR 0x0A] @ ''Pending'' @ [CHR 0x0A]) = [''Running'', ''Pending'']"
  by (simp add: pod_phases_def str_or_def str_splitlines_def str_strip_def isspace_def islinebreak_def)

lemma phases_none: "pod_phases [] = []"
  by (simp add: pod_phases_def str_or_def str_splitlines_def)

theorem pods_wait_converges_iff_witness:
  "pods_loop converged_world None 0 =
     Some ([Clock, Exec pods_cmd None, Log SUCCESS ''Rancher pods are Running.''], Converged)
   \<and> pods_loop (failing_world (''Running'' @ [CHR 0x0A] @ ''Pending'' @ [CHR 0x0A]) 1) None 0 =
     Some ([Clock, Exec pods_cmd None, Sleep 3, Clock], TimedOut)
   \<and> pods_loop (failing_world [] 1) None 0 =
     Some ([Clock, Exec pods_cmd None, Sleep 3, Clock], TimedOut)"
proof -
  let ?rp = "''Running'' @ [CHR 0x0A] @ ''Pending'' @ [CHR 0x0A]"
  have a: "w_before_deadline converged_world 0
      \<and> pod_phases (stdout (w_proc converged_world PodsProbe 0)) = [''Running'', ''Running'']"
    using phases_running by (simp add: converged_world_def answer_def)
  have b: "w_before_deadline (failing_world ?rp 1) 0
        \<and> (pod_phases (stdout (w_proc (failing_world ?rp 1) PodsProbe 0)) = [''Running'', ''Pending'']
           \<or> pod_phases (stdout (w_proc (failing_world ?rp 1) PodsProbe 0)) = [])"
    using phases_pending by (simp add: failing_world_def answer_def)
  have c: "w_before_deadline (failing_world [] 1) 0
        \<and> (pod_phases (stdout (w_proc (failing_world [] 1) PodsProbe 0)) = [''Running'', ''Pending'']
           \<or> pod_phases (stdout (w_proc (failing_world [] 1) PodsProbe 0)) = [])"
    using phases_none by (simp add: failing_world_def answer_def)
  have d: "pods_loop (failing_world out 1) None (Suc 0) = Some ([Clock], TimedOut)" for out
    by (rule pods_loop_deadline) (simp add: failing_world_def)
  from a pods_wait_converges_iff [of converged_world None 0]
  have "pods_loop converged_world None 0 =
     Some ([Clock, Exec pods_cmd None, Log SUCCESS ''Rancher pods are Running.''], Converged)"
    by blast
  moreover from b pods_wait_converges_iff [of "failing_world ?rp 1" None 0]
  have "pods_loop (failing_world ?rp 1) None 0 =
      Option.bind (pods_loop (failing_world ?rp 1) None (Suc 0))
              (\<lambda>(t, x). Some (Clock # Exec pods_cmd None # Sleep 3 # t, x))"
    by blast
  moreover from c pods_wait_converges_iff [of "failing_world [] 1" None 0]
  have "pods_loop (failing_world [] 1) None 0 =
      Option.bind (pods_loop (failing_world [] 1) None (Suc 0))
              (\<lambda>(t, x). Some (Clock # Exec pods_cmd None # Sleep 3 # t, x))"
    by blast
  ultimately show ?thesis by (simp only: d) simp
qed

section \<open>Statements in sequence\<close>

lemma snd_seq_Cons: "snd (seq (s # ss)) = (if snd s = Normal then snd (seq ss) else snd s)"
  by (cases s; cases "snd s") (auto split: prod.splits)

lemma fst_seq_Cons:
  "fst (seq (s # ss)) = (if snd s = Normal then fst s @ fst (seq ss) else fst s)"
  by (cases s; cases "snd s") (auto split: prod.splits)

lemma seq_Nil_parts: "fst (seq []) = []" "snd (seq []) = Normal"
  by simp_all

lemma say_parts: "fst (say l m) = [Log l m]" "snd (say l m) = Normal"
  by (simp_all add: say_def)

lemma emit_parts: "fst (emit t) = t" "snd (emit t) = Normal"
  by (simp_all add: emit_def)

lemma sys_exit_parts: "fst (sys_exit n) = []" "snd (sys_exit n) = SysExit n"
  by (simp_all add: sys_exit_def)

lemma run_parts:
  "fst (run cmd check env r) = [Log INFO (''$ '' @ join '' '' cmd), Exec cmd env]"
  "snd (run cmd check env r) =
     (if check \<and> returncode r \<noteq> 0 then Raised (CalledProcessError (returncode r) cmd)
      else Normal)"
  by (simp_all add: run_def)

lemmas seq_parts = snd_seq_Cons fst_seq_Cons seq_Nil_parts say_parts emit_parts sys_exit_parts
  run_parts

lemma seq_opt_Some:
  "seq_opt (Some s # ss) =
     (if snd s = Normal then
        (case seq_opt ss of None \<Rightarrow> None | Some r \<Rightarrow> Some (fst s @ fst r, snd r))
      else Some s)"
  by (cases s; cases "snd s") (auto split: option.splits)

section \<open>How each step ends\<close>

lemma require_sudo_ends:
  "snd (require_sudo w) = (if w_euid w \<noteq> 0 then SysExit 1 else Normal)"
  by (simp add: require_sudo_def seq_parts del: seq.simps)

lemma show_mode_ends: "snd (show_mode h) = Normal"
  by (simp add: show_mode_def seq_parts del: seq.simps)

lemma ensure_hosts_ends: "snd (ensure_hosts w h) = Normal"
  by (simp add: ensure_hosts_def Let_def seq_parts del: seq.simps)

lemma ensure_kube_dir_ends: "snd (ensure_kube_dir w h) = Normal"
  by (simp add: ensure_kube_dir_def Let_def seq_parts del: seq.simps)

lemma fix_kubeconfig_permissions_ends: "snd (fix_kubeconfig_permissions w h) = Normal"
  by (simp add: fix_kubeconfig_permissions_def Let_def seq_parts ensure_kube_dir_ends
      del: seq.simps)

lemma wait_nodes_ready_ends: "snd (wait_nodes_ready w) = Normal"
  by (simp add: wait_nodes_ready_def seq_parts split: prod.splits poll_outcome.splits
      del: seq.simps nodes_loop.simps)

lemma kubeconfig_appears_iff:
  "kubeconfig_appears w \<longleftrightarrow> snd (wait_kubeconfig w p 0 60) = Converged"
  by (simp add: kubeconfig_appears_def wait_kubeconfig_converged_iff)

lemma install_or_verify_ends:
  "snd (install_or_verify w h) =
     (if \<not> k3s_active w \<and> returncode (w_proc w K3sInstall 0) \<noteq> 0 then
        Raised (CalledProcessError (returncode (w_proc w K3sInstall 0)) k3s_install_cmd)
      else if \<not> kubeconfig_appears w then SysExit 1
      else Normal)"
proof -
  obtain t x where loop:
    "wait_kubeconfig w (path_str (Path ''/etc/rancher/k3s/k3s.yaml'')) 0 60 = (t, x)"
    by (cases "wait_kubeconfig w (path_str (Path ''/etc/rancher/k3s/k3s.yaml'')) 0 60")
  have x: "x = (if kubeconfig_appears w then Converged else TimedOut)"
    using kubeconfig_appears_iff [of w "path_str (Path ''/etc/rancher/k3s/k3s.yaml'')"] loop
    by (cases x) auto
  show ?thesis
    unfolding install_or_verify_def Let_def loop x
    by (simp add: seq_parts k3s_active_def fix_kubeconfig_permissions_ends
        wait_nodes_ready_ends del: seq.simps)
qed

lemma ensure_kubectl_ends: "snd (ensure_kubectl w) = Normal"
  by (simp add: ensure_kubectl_def Let_def seq_parts split: option.splits del: seq.simps)

lemma apply_bootstrap_yaml_ends: "snd (apply_bootstrap_yaml w h) = Normal"
  by (simp add: apply_bootstrap_yaml_def Let_def seq_parts del: seq.simps)

lemma ensure_helm_ends:
  "snd (ensure_helm w) =
     (if w_which w WhichHelm then Normal
      else if returncode (w_proc w HelmInstall 0) \<noteq> 0 then
        Raised (CalledProcessError (returncode (w_proc w HelmInstall 0)) helm_install_cmd)
      else if \<not> w_which w WhichHelmAgain then SysExit 2
      else Normal)"
  by (simp add: ensure_helm_def seq_parts del: seq.simps)

lemma install_ends:
  "snd (install w h) =
     (if returncode (w_proc w HelmStatus 0) \<noteq> 0 \<and> returncode (w_proc w HelmUpgrade 0) \<noteq> 0
      then Raised (CalledProcessError (returncode (w_proc w HelmUpgrade 0)) (helm_cmd h))
      else Normal)"
  by (simp add: install_def Let_def seq_parts del: seq.simps)

lemma wait_ready_ends: "wait_ready w h ts = Some r \<Longrightarrow> snd r = Normal"
  by (auto simp: wait_ready_def Let_def run_def seq_parts
      split: if_splits option.splits poll_outcome.splits simp del: seq.simps)

lemma verify_cluster_ends: "snd (verify_cluster w h) = Normal"
  by (simp add: verify_cluster_def Let_def seq_parts del: seq.simps)

lemma access_ends: "snd (access h) = Normal"
  by (simp add: access_def seq_parts del: seq.simps)

lemma final_ends: "snd (final h) = Normal"
  by (simp add: final_def seq_parts del: seq.simps)

section \<open>The whole run\<close>

lemma seq_opt_total: "seq_opt (map Some ss) = Some (seq ss)"
  by (induction ss) (auto split: prod.splits outcome.splits)

lemma seq_opt_append:
  "seq_opt (map Some xs @ ys) =
     (if snd (seq xs) = Normal then
        (case seq_opt ys of None \<Rightarrow> None | Some r \<Rightarrow> Some (fst (seq xs) @ fst r, snd r))
      else Some (seq xs))"
proof (induction xs)
  case Nil
  then show ?case by (simp split: option.splits)
next
  case (Cons x xs)
  obtain t oc where x: "x = (t, oc)" by (cases x)
  show ?case
  proof (cases "oc = Normal")
    case True
    with x Cons show ?thesis
      by (cases "seq xs") (auto split: option.splits)
  next
    case False
    with x show ?thesis by (cases oc) auto
  qed
qed

text \<open>The steps of \<open>BootstrapOrchestrator.run\<close> before and after \<open>wait_ready\<close>.\<close>

lemma orchestrator_run_shape:
  "orchestrator_run w h =
     (if snd (seq [require_sudo w, show_mode h, ensure_hosts w h, install_or_verify w h,
                   ensure_kubectl w, apply_bootstrap_yaml w h, ensure_helm w, install w h])
           = Normal
      then
        (case wait_ready w h 300 of
           None \<Rightarrow> None
         | Some r \<Rightarrow>
             Some (fst (seq [require_sudo w, show_mode h, ensure_hosts w h,
                             install_or_verify w h, ensure_kubectl w,
                             apply_bootstrap_yaml w h, ensure_helm w, install w h])
                     @ fst r @ fst (seq [verify_cluster w h, access h, final h]),
                   Normal))
      else Some (seq [require_sudo w, show_mode h, ensure_hosts w h, install_or_verify w h,
                      ensure_kubectl w, apply_bootstrap_yaml w h, ensure_helm w,
                      install w h]))"
proof -
  let ?pre = "[require_sudo w, show_mode h, ensure_hosts w h, install_or_verify w h,
               ensure_kubectl w, apply_bootstrap_yaml w h, ensure_helm w, install w h]"
  let ?post = "[verify_cluster w h, access h, final h]"
  have "orchestrator_run w h = seq_opt (map Some ?pre @ wait_ready w h 300 # map Some ?post)"
    by (simp add: orchestrator_run_def)
  also have "\<dots> =
     (if snd (seq ?pre) = Normal then
        (case seq_opt (wait_ready w h 300 # map Some ?post) of
           None \<Rightarrow> None | Some r \<Rightarrow> Some (fst (seq ?pre) @ fst r, snd r))
      else Some (seq ?pre))"
    by (rule seq_opt_append)
  also have "seq_opt (wait_ready w h 300 # map Some ?post) =
     (case wait_ready w h 300 of
        None \<Rightarrow> None
      | Some r \<Rightarrow> Some (fst r @ fst (seq ?post), Normal))"
  proof (cases "wait_ready w h 300")
    case None
    then show ?thesis by simp
  next
    case (Some r)
    then have "snd r = Normal" by (rule wait_ready_ends)
    moreover have "snd (seq ?post) = Normal"
      by (simp add: seq_parts verify_cluster_ends access_ends final_ends del: seq.simps)
    ultimately show ?thesis
      using Some seq_opt_Some [of r "map Some ?post"] seq_opt_total [of ?post]
      by (simp del: seq.simps seq_opt.simps)
  qed
  finally show ?thesis
    by (simp split: option.splits del: seq.simps seq_opt.simps)
qed

lemma main_shape:
  "main w =
     (case orchestrator_run w (host w) of
        None \<Rightarrow> None
      | Some r \<Rightarrow> Some (Exec [''hostname'', ''-I''] None # fst r, snd r))"
proof -
  have init: "HostEnv_init w = (host w, [Exec [''hostname'', ''-I''] None])"
    by (simp add: host_def HostEnv_init_def Let_def)
  show ?thesis
    unfolding main_def init
    by (cases "orchestrator_run w (host w)") (auto simp: emit_def split: outcome.splits)
qed

section \<open>The commands of the package manager in a run\<close>

lemma helm_seq_Cons:
  "filter is_helm (fst (seq (s # ss))) =
     (if snd s = Normal then filter is_helm (fst s) @ filter is_helm (fst (seq ss))
      else filter is_helm (fst s))"
  by (simp add: fst_seq_Cons del: seq.simps)

lemma helm_nodes_loop: "filter is_helm (fst (nodes_loop w k n)) = []"
  by (induction n arbitrary: k) (simp_all add: nodes_cmd_def split_beta)

lemma helm_wait_kubeconfig: "filter is_helm (fst (wait_kubeconfig w p k n)) = []"
  by (induction n arbitrary: k) (simp_all add: split_beta)

lemma helm_pods_loop:
  assumes "pods_loop w env k = Some r"
  shows "filter is_helm (fst r) = []"
proof (rule pods_loop.raw_induct [where P = "\<lambda>w env k r. filter is_helm (fst r) = []", OF _ assms],
    goal_cases)
  case (1 pl w env k r)
  then show ?case
    by (auto simp: Let_def pods_cmd_def split: if_splits bind_splits)
qed

lemmas helm_parts = helm_seq_Cons seq_Nil_parts say_parts emit_parts sys_exit_parts run_parts
  snd_seq_Cons

lemma helm_require_sudo: "filter is_helm (fst (require_sudo w)) = []"
  by (simp add: require_sudo_def helm_parts del: seq.simps)

lemma helm_show_mode: "filter is_helm (fst (show_mode h)) = []"
  by (simp add: show_mode_def helm_parts del: seq.simps)

lemma helm_ensure_hosts: "filter is_helm (fst (ensure_hosts w h)) = []"
  by (simp add: ensure_hosts_def Let_def helm_parts del: seq.simps)

lemma helm_ensure_kube_dir: "filter is_helm (fst (ensure_kube_dir w h)) = []"
  by (simp add: ensure_kube_dir_def Let_def helm_parts del: seq.simps)

lemma helm_fix_kubeconfig_permissions:
  "filter is_helm (fst (fix_kubeconfig_permissions w h)) = []"
  by (simp add: fix_kubeconfig_permissions_def Let_def helm_parts helm_ensure_kube_dir
      ensure_kube_dir_ends del: seq.simps)

lemma helm_wait_nodes_ready: "filter is_helm (fst (wait_nodes_ready w)) = []"
proof -
  obtain t x where loop: "nodes_loop w 0 60 = (t, x)" by (cases "nodes_loop w 0 60")
  have "filter is_helm t = []" using helm_nodes_loop [of w 0 60] loop by simp
  then show ?thesis
    unfolding wait_nodes_ready_def loop
    by (cases x) (simp_all add: helm_parts del: seq.simps)
qed

lemma helm_install_or_verify: "filter is_helm (fst (install_or_verify w h)) = []"
proof -
  obtain t x where loop:
    "wait_kubeconfig w (path_str (Path ''/etc/rancher/k3s/k3s.yaml'')) 0 60 = (t, x)"
    by (cases "wait_kubeconfig w (path_str (Path ''/etc/rancher/k3s/k3s.yaml'')) 0 60")
  have "filter is_helm t = []"
    using helm_wait_kubeconfig [of w _ 0 60] loop by (metis fst_conv)
  then show ?thesis
    unfolding install_or_verify_def Let_def loop
    by (cases x)
      (simp_all add: helm_parts k3s_install_cmd_def helm_fix_kubeconfig_permissions
        helm_wait_nodes_ready fix_kubeconfig_permissions_ends wait_nodes_ready_ends
        del: seq.simps)
qed

lemma helm_ensure_kubectl: "filter is_helm (fst (ensure_kubectl w)) = []"
  by (simp add: ensure_kubectl_def Let_def helm_parts split: option.splits del: seq.simps)

lemma helm_apply_bootstrap_yaml: "filter is_helm (fst (apply_bootstrap_yaml w h)) = []"
  by (simp add: apply_bootstrap_yaml_def Let_def helm_parts del: seq.simps)

lemma helm_ensure_helm: "filter is_helm (fst (ensure_helm w)) = []"
  by (simp add: ensure_helm_def helm_parts helm_install_cmd_def del: seq.simps)

lemma helm_install:
  "filter is_helm (fst (install w h)) =
     (if returncode (w_proc w HelmStatus 0) = 0 then [Exec status_cmd (kube_env h)]
      else [Exec status_cmd (kube_env h), Exec repo_add_cmd None, Exec repo_update_cmd None,
            Exec (helm_cmd h) (kube_env h)])"
  by (simp add: install_def Let_def helm_parts status_cmd_def repo_add_cmd_def
      repo_update_cmd_def helm_cmd_def del: seq.simps)

lemma helm_wait_ready:
  assumes "wait_ready w h ts = Some r"
  shows "filter is_helm (fst r) = []"
proof (cases "returncode (w_proc w RolloutStatus 0) = 0")
  case True
  with assms show ?thesis
    by (auto simp: wait_ready_def Let_def run_def helm_parts rollout_cmd_def simp del: seq.simps)
next
  case False
  with assms obtain t x where loop: "pods_loop w (kube_env h) 0 = Some (t, x)"
    by (auto simp: wait_ready_def Let_def run_def split: option.splits)
  then have "filter is_helm t = []" using helm_pods_loop by fastforce
  with assms False loop show ?thesis
    by (cases x)
      (auto simp: wait_ready_def Let_def run_def helm_parts rollout_cmd_def simp del: seq.simps)
qed

lemma helm_verify_cluster: "filter is_helm (fst (verify_cluster w h)) = []"
  by (simp add: verify_cluster_def Let_def helm_parts del: seq.simps)

lemma helm_access: "filter is_helm (fst (access h)) = []"
  by (simp add: access_def helm_parts del: seq.simps)

lemma helm_final: "filter is_helm (fst (final h)) = []"
  by (simp add: final_def helm_parts del: seq.simps)

section \<open>Where a run ends and which package-manager commands it issues\<close>

lemmas step_ends = require_sudo_ends show_mode_ends ensure_hosts_ends install_or_verify_ends
  ensure_kubectl_ends apply_bootstrap_yaml_ends ensure_helm_ends install_ends

lemmas step_helm = helm_require_sudo helm_show_mode helm_ensure_hosts helm_install_or_verify
  helm_ensure_kubectl helm_apply_bootstrap_yaml helm_ensure_helm

lemma before_wait_ends:
  "snd (seq [require_sudo w, show_mode h, ensure_hosts w h, install_or_verify w h,
             ensure_kubectl w, apply_bootstrap_yaml w h, ensure_helm w, install w h]) =
     (if w_euid w \<noteq> 0 then SysExit 1
      else if \<not> k3s_active w \<and> returncode (w_proc w K3sInstall 0) \<noteq> 0 then
        Raised (CalledProcessError (returncode (w_proc w K3sInstall 0)) k3s_install_cmd)
      else if \<not> kubeconfig_appears w then SysExit 1
      else if \<not> w_which w WhichHelm \<and> returncode (w_proc w HelmInstall 0) \<noteq> 0 then
        Raised (CalledProcessError (returncode (w_proc w HelmInstall 0)) helm_install_cmd)
      else if \<not> w_which w WhichHelm \<and> \<not> w_which w WhichHelmAgain then SysExit 2
      else if \<not> release_present w \<and> returncode (w_proc w HelmUpgrade 0) \<noteq> 0 then
        Raised (CalledProcessError (returncode (w_proc w HelmUpgrade 0)) (helm_cmd h))
      else Normal)"
  by (simp add: snd_seq_Cons seq_Nil_parts step_ends release_present_def del: seq.simps)

lemma before_wait_helm:
  "filter is_helm
     (fst (seq [require_sudo w, show_mode h, ensure_hosts w h, install_or_verify w h,
                ensure_kubectl w, apply_bootstrap_yaml w h, ensure_helm w, install w h])) =
     (if reaches_install w then
        (if release_present w then [Exec status_cmd (kube_env h)]
         else [Exec status_cmd (kube_env h), Exec repo_add_cmd None,
               Exec repo_update_cmd None, Exec (helm_cmd h) (kube_env h)])
      else [])"
  by (simp add: helm_seq_Cons snd_seq_Cons seq_Nil_parts step_ends step_helm helm_install
      release_present_def reaches_install_def reaches_ensure_helm_def helm_available_def
      reaches_kubeconfig_wait_def del: seq.simps)

lemma wait_ready_None:
  "wait_ready w h ts = None \<longleftrightarrow>
     returncode (w_proc w RolloutStatus 0) \<noteq> 0 \<and> pods_loop w (kube_env h) 0 = None"
  by (auto simp: wait_ready_def Let_def run_def split: option.splits)

lemma main_ends:
  "map_option snd (main w) =
     (if w_euid w \<noteq> 0 then Some (SysExit 1)
      else if \<not> k3s_active w \<and> returncode (w_proc w K3sInstall 0) \<noteq> 0 then
        Some (Raised (CalledProcessError (returncode (w_proc w K3sInstall 0)) k3s_install_cmd))
      else if \<not> kubeconfig_appears w then Some (SysExit 1)
      else if \<not> w_which w WhichHelm \<and> returncode (w_proc w HelmInstall 0) \<noteq> 0 then
        Some (Raised (CalledProcessError (returncode (w_proc w HelmInstall 0)) helm_install_cmd))
      else if \<not> w_which w WhichHelm \<and> \<not> w_which w WhichHelmAgain then Some (SysExit 2)
      else if \<not> release_present w \<and> returncode (w_proc w HelmUpgrade 0) \<noteq> 0 then
        Some (Raised (CalledProcessError (returncode (w_proc w HelmUpgrade 0))
                (helm_cmd (host w))))
      else if wait_ready w (host w) 300 = None then None
      else Some Normal)"
proof -
  let ?pre = "seq [require_sudo w, show_mode (host w), ensure_hosts w (host w),
                   install_or_verify w (host w), ensure_kubectl w,
                   apply_bootstrap_yaml w (host w), ensure_helm w, install w (host w)]"
  have "map_option snd (main w) =
      (if snd ?pre = Normal then
         (if wait_ready w (host w) 300 = None then None else Some Normal)
       else Some (snd ?pre))"
    unfolding main_shape orchestrator_run_shape
    by (simp split: option.splits del: seq.simps)
  then show ?thesis
    unfolding before_wait_ends by (simp del: seq.simps)
qed

lemma main_helm:
  assumes "main w = Some r"
  shows "filter is_helm (fst r) =
     (if reaches_install w then
        (if release_present w then [Exec status_cmd (kube_env (host w))]
         else [Exec status_cmd (kube_env (host w)), Exec repo_add_cmd None,
               Exec repo_update_cmd None, Exec (helm_cmd (host w)) (kube_env (host w))])
      else [])"
proof -
  let ?pre = "seq [require_sudo w, show_mode (host w), ensure_hosts w (host w),
                   install_or_verify w (host w), ensure_kubectl w,
                   apply_bootstrap_yaml w (host w), ensure_helm w, install w (host w)]"
  let ?post = "seq [verify_cluster w (host w), access (host w), final (host w)]"
  have post: "filter is_helm (fst ?post) = []"
    by (simp add: helm_seq_Cons seq_Nil_parts helm_verify_cluster helm_access helm_final
        del: seq.simps)
  have hostname: "\<not> is_helm (Exec [''hostname'', ''-I''] None)" by simp
  show ?thesis
  proof (cases "snd ?pre = Normal")
    case True
    with assms obtain r' where r': "wait_ready w (host w) 300 = Some r'"
      and r: "r = (Exec [''hostname'', ''-I''] None # fst ?pre @ fst r' @ fst ?post, Normal)"
      unfolding main_shape orchestrator_run_shape by (auto split: option.splits)
    have "filter is_helm (fst r') = []" using r' by (rule helm_wait_ready)
    with post hostname show ?thesis
      unfolding r by (simp add: before_wait_helm del: seq.simps is_helm.simps)
  next
    case False
    with assms have r: "r = (Exec [''hostname'', ''-I''] None # fst ?pre, snd ?pre)"
      unfolding main_shape orchestrator_run_shape by (auto split: option.splits)
    with hostname show ?thesis
      by (simp add: before_wait_helm del: seq.simps is_helm.simps)
  qed
qed

section \<open>A run without privilege\<close>

lemma main_unprivileged:
  assumes "w_euid w \<noteq> 0"
  shows "main w =
     Some ([Exec [''hostname'', ''-I''] None, Geteuid,
            Log ERROR ''This script must be run as root (sudo). Exiting.''],
           SysExit 1)"
proof -
  have sudo: "require_sudo w =
      ([Geteuid, Log ERROR ''This script must be run as root (sudo). Exiting.''], SysExit 1)"
    using assms by (simp add: require_sudo_def emit_def say_def sys_exit_def)
  have "seq (require_sudo w # ss) = require_sudo w" for ss
    unfolding sudo by simp
  then show ?thesis
    unfolding main_shape orchestrator_run_shape by (simp add: sudo del: seq.simps)
qed

text \<open>
  C5, as the code has it. When the effective user id is not 0 the process exits with
  status 1, and it has run exactly one external command: \<open>hostname -I\<close>, which
  \<open>HostEnv.__init__\<close> runs while \<open>main\<close> builds the orchestrator, before
  \<open>require_sudo\<close> looks at the user id. Nothing runs after the privilege check.
\<close>

theorem unprivileged_run_probes_address_only:
  "w_euid w \<noteq> 0 \<Longrightarrow>
   main w =
     Some ([Exec [''hostname'', ''-I''] None, Geteuid,
            Log ERROR ''This script must be run as root (sudo). Exiting.''],
           SysExit 1)
   \<and> map_option (exit_status \<circ> snd) (main w) = Some 1"
  by (simp add: main_unprivileged)

theorem unprivileged_run_probes_address_only_witness:
  "w_euid (converged_world\<lparr>w_euid := 1000\<rparr>) \<noteq> 0
   \<and> main (converged_world\<lparr>w_euid := 1000\<rparr>) =
     Some ([Exec [''hostname'', ''-I''] None, Geteuid,
            Log ERROR ''This script must be run as root (sudo). Exiting.''],
           SysExit 1)
   \<and> map_option (exit_status \<circ> snd) (main (converged_world\<lparr>w_euid := 1000\<rparr>)) = Some 1"
proof -
  have "w_euid (converged_world\<lparr>w_euid := 1000\<rparr>) \<noteq> 0" by simp
  from this unprivileged_run_probes_address_only [OF this] show ?thesis by blast
qed

text \<open>
  C5 as stated fails: a run without privilege does invoke an external command, the
  address probe, although the privilege check itself invokes none.
\<close>

theorem unprivileged_run_invokes_hostname:
  "w_euid ((failing_world [] 0)\<lparr>w_euid := 501\<rparr>) \<noteq> 0
   \<and> main ((failing_world [] 0)\<lparr>w_euid := 501\<rparr>) =
     Some ([Exec [''hostname'', ''-I''] None, Geteuid,
            Log ERROR ''This script must be run as root (sudo). Exiting.''],
           SysExit 1)"
  by (simp add: main_unprivileged)

section \<open>Exit status\<close>


lemma converged_reaches_wait_ready:
  "reaches_wait_ready converged_world" "wait_ready converged_world h ts \<noteq> None"
proof -
  have "(0::nat) < 60 \<and> w_exists converged_world KcfgPoll 0"
    by (simp add: converged_world_def)
  then have "kubeconfig_appears converged_world"
    unfolding kubeconfig_appears_def by blast
  then show "reaches_wait_ready converged_world"
    by (simp add: reaches_wait_ready_def reaches_install_def reaches_ensure_helm_def
        reaches_kubeconfig_wait_def helm_available_def release_present_def k3s_active_def
        converged_world_def answer_def)
  show "wait_ready converged_world h ts \<noteq> None"
    by (simp add: wait_ready_None converged_world_def answer_def)
qed



section \<open>Installing the management UI\<close>

lemma helm_cmd_is_helm: "is_helm (Exec (helm_cmd h) env)"
  by (simp add: helm_cmd_def Let_def)

lemma helm_cmd_not_status: "helm_cmd h \<noteq> status_cmd"
  by (simp add: helm_cmd_def status_cmd_def Let_def)

lemma repo_cmds_are_helm:
  "is_helm (Exec repo_add_cmd env)" "is_helm (Exec repo_update_cmd env)"
  by (simp_all add: repo_add_cmd_def repo_update_cmd_def)

lemma repo_cmds_distinct:
  "repo_add_cmd \<noteq> status_cmd" "repo_update_cmd \<noteq> status_cmd"
  "repo_add_cmd \<noteq> repo_update_cmd" "repo_add_cmd \<noteq> helm_cmd h" "repo_update_cmd \<noteq> helm_cmd h"
  by (simp_all add: repo_add_cmd_def repo_update_cmd_def status_cmd_def helm_cmd_def Let_def)

lemma install_release_present:
  assumes "returncode (w_proc w HelmStatus 0) = 0"
  shows "install w h =
     ([Log INFO ''Checking if Rancher helm release already exists (skip install if present)...'',
       Exec status_cmd (kube_env h),
       Log INFO ''Rancher helm release already present; skipping install/upgrade per request.''],
      Normal)"
  using assms by (simp add: install_def Let_def say_def emit_def)

text \<open>
  C1. If \<open>helm status rancher -n cattle-system\<close> exits with 0, \<open>RancherDeployment.install\<close>
  logs, runs that query, logs again and returns: it issues no other command. In a whole
  run in which the query exits with 0, the chart installation command is never issued;
  the only command of the package manager in the run is the query itself.
\<close>

theorem install_skipped_when_release_present:
  "returncode (w_proc w HelmStatus 0) = 0 \<Longrightarrow>
   install w h =
     ([Log INFO ''Checking if Rancher helm release already exists (skip install if present)...'',
       Exec status_cmd (kube_env h),
       Log INFO ''Rancher helm release already present; skipping install/upgrade per request.''],
      Normal)
   \<and> (main w = Some (t, oc) \<longrightarrow>
        (\<forall>env. Exec (helm_cmd (host w)) env \<notin> set t)
        \<and> filter is_helm t =
            (if reaches_install w then [Exec status_cmd (kube_env (host w))] else []))"
proof (intro conjI impI allI)
  assume rc: "returncode (w_proc w HelmStatus 0) = 0"
  then show "install w h =
     ([Log INFO ''Checking if Rancher helm release already exists (skip install if present)...'',
       Exec status_cmd (kube_env h),
       Log INFO ''Rancher helm release already present; skipping install/upgrade per request.''],
      Normal)"
    by (rule install_release_present)
  assume run: "main w = Some (t, oc)"
  from main_helm [OF run] rc
  show calls: "filter is_helm t =
      (if reaches_install w then [Exec status_cmd (kube_env (host w))] else [])"
    by (simp add: release_present_def)
  fix env
  show "Exec (helm_cmd (host w)) env \<notin> set t"
  proof
    assume "Exec (helm_cmd (host w)) env \<in> set t"
    then have "Exec (helm_cmd (host w)) env \<in> set (filter is_helm t)"
      using helm_cmd_is_helm by simp
    then show False
      unfolding calls using helm_cmd_not_status by (simp split: if_splits)
  qed
qed

lemma converged_main_returns: "map_option snd (main converged_world) = Some Normal"
  unfolding main_ends using converged_reaches_wait_ready
  by (simp add: reaches_wait_ready_def reaches_install_def reaches_ensure_helm_def
      reaches_kubeconfig_wait_def helm_available_def converged_world_def)

theorem install_skipped_when_release_present_witness:
  "returncode (w_proc converged_world HelmStatus 0) = 0
   \<and> (\<exists>t oc. main converged_world = Some (t, oc)
        \<and> (\<forall>env. Exec (helm_cmd (host converged_world)) env \<notin> set t)
        \<and> filter is_helm t = [Exec status_cmd (kube_env (host converged_world))])"
proof -
  have rc: "returncode (w_proc converged_world HelmStatus 0) = 0"
    by (simp add: converged_world_def answer_def)
  from converged_main_returns obtain t oc where run: "main converged_world = Some (t, oc)"
    by (cases "main converged_world") auto
  have reach: "reaches_install converged_world"
    using converged_reaches_wait_ready(1) by (simp add: reaches_wait_ready_def)
  from install_skipped_when_release_present [OF rc, of _ t oc] run reach rc
  show ?thesis by auto
qed

section \<open>Registering the chart repository\<close>

text \<open>
  C6, as the code has it. \<open>helm repo add\<close> and \<open>helm repo update\<close> are not run on
  every run. A run that ends has run each of them exactly when it reached
  \<open>RancherDeployment.install\<close> and the release query there did not exit with 0; when the
  release is present, \<open>install\<close> returns before the two commands, and no other step
  issues them.
\<close>

theorem repo_refresh_only_when_release_absent:
  "main w = Some (t, oc) \<Longrightarrow>
   (Exec repo_add_cmd None \<in> set t \<longleftrightarrow> reaches_install w \<and> \<not> release_present w)
   \<and> (Exec repo_update_cmd None \<in> set t \<longleftrightarrow> reaches_install w \<and> \<not> release_present w)
   \<and> (release_present w \<longrightarrow>
        (\<forall>env. Exec repo_add_cmd env \<notin> set t \<and> Exec repo_update_cmd env \<notin> set t))"
proof -
  assume run: "main w = Some (t, oc)"
  have calls: "filter is_helm t =
     (if reaches_install w then
        (if release_present w then [Exec status_cmd (kube_env (host w))]
         else [Exec status_cmd (kube_env (host w)), Exec repo_add_cmd None,
               Exec repo_update_cmd None, Exec (helm_cmd (host w)) (kube_env (host w))])
      else [])"
    using main_helm [OF run] by simp
  have mem: "Exec c env \<in> set t \<longleftrightarrow> Exec c env \<in> set (filter is_helm t)"
    if "is_helm (Exec c env)" for c env
    using that by simp
  show ?thesis
    unfolding mem [OF repo_cmds_are_helm(1)] mem [OF repo_cmds_are_helm(2)] calls
    using repo_cmds_distinct by auto
qed

theorem repo_refresh_only_when_release_absent_witness:
  "\<exists>t oc. main fresh_release_world = Some (t, oc)
     \<and> Exec repo_add_cmd None \<in> set t \<and> Exec repo_update_cmd None \<in> set t"
proof -
  have "(0::nat) < 60 \<and> w_exists fresh_release_world KcfgPoll 0"
    by (simp add: fresh_release_world_def converged_world_def)
  then have appears: "kubeconfig_appears fresh_release_world"
    unfolding kubeconfig_appears_def by blast
  then have reach: "reaches_install fresh_release_world \<and> \<not> release_present fresh_release_world"
    by (simp add: reaches_install_def reaches_ensure_helm_def reaches_kubeconfig_wait_def
        helm_available_def release_present_def k3s_active_def fresh_release_world_def
        converged_world_def answer_def)
  have "wait_ready fresh_release_world h ts \<noteq> None" for h ts
    by (simp add: wait_ready_None fresh_release_world_def converged_world_def answer_def)
  with appears have "map_option snd (main fresh_release_world) = Some Normal"
    unfolding main_ends
    by (simp add: k3s_active_def release_present_def fresh_release_world_def
        converged_world_def answer_def)
  then obtain t oc where run: "main fresh_release_world = Some (t, oc)"
    by (cases "main fresh_release_world") auto
  from repo_refresh_only_when_release_absent [OF run] reach run show ?thesis by blast
qed

text \<open>
  C6 as stated fails: on a host where the release is present the run completes, and the
  only command of the package manager it has run is the release query; \<open>helm repo add\<close>
  and \<open>helm repo update\<close> are commands of the package manager, so they were not run.
\<close>

theorem converged_run_skips_repo_refresh:
  "release_present converged_world
   \<and> map_option snd (main converged_world) = Some Normal
   \<and> map_option (filter is_helm \<circ> fst) (main converged_world) =
       Some [Exec status_cmd (kube_env (host converged_world))]
   \<and> is_helm (Exec repo_add_cmd None) \<and> is_helm (Exec repo_update_cmd None)"
proof -
  have present: "release_present converged_world"
    by (simp add: release_present_def converged_world_def answer_def)
  from converged_main_returns obtain r where run: "main converged_world = Some r"
    by (cases "main converged_world") auto
  have reach: "reaches_install converged_world"
    using converged_reaches_wait_ready(1) by (simp add: reaches_wait_ready_def)
  from main_helm [OF run] present reach
  have "filter is_helm (fst r) = [Exec status_cmd (kube_env (host converged_world))]"
    by simp
  with run present converged_main_returns repo_cmds_are_helm show ?thesis by simp
qed

section \<open>Waiting for the management UI\<close>










section \<open>Waits that run out\<close>










end
